theory Spec2Isabelle
  imports Complex_Main "HOL-Library.Word"
begin

section \<open>Pose shadowing and calibration of the OpenGloves driver\<close>

text \<open>
  A shallow embedding of \<^verbatim>\<open>src/ControllerPose.cpp\<close>: the constructor, \<^verbatim>\<open>GetControllerPose\<close>,
  \<^verbatim>\<open>UpdatePose\<close>, the three calibration entry points and the discovery callback.

  Scalars. The source computes on \<^verbatim>\<open>float\<close> (the host's matrices and vectors, the configured
  offset vector and time offset) and on \<^verbatim>\<open>double\<close> (quaternions and the fields of the driver
  pose). They are the type variables \<open>'f\<close> and \<open>'d\<close>; the arithmetic on them is whatever the
  instance provides (only the syntactic classes \<open>zero\<close>, \<open>one\<close>, \<open>plus\<close>, \<open>minus\<close>, \<open>times\<close> are
  asked for, no algebraic law), and the implicit conversion of a \<^verbatim>\<open>float\<close> to a \<^verbatim>\<open>double\<close>
  is the parameter \<open>W\<close>.
\<close>

subsection \<open>Types of openvr.h\<close>

text \<open>C arrays of three and of four elements; \<open>at0 a\<close> is \<^verbatim>\<open>a[0]\<close>, \<open>col3 r\<close> is \<^verbatim>\<open>r[3]\<close>.\<close>

datatype 'a array3 = Array3 (at0: 'a) (at1: 'a) (at2: 'a)

datatype 'a array4 = Array4 (col0: 'a) (col1: 'a) (col2: 'a) (col3: 'a)

text \<open>
  \<^verbatim>\<open>struct HmdVector3_t { float v[3]; }\<close>, \<^verbatim>\<open>struct HmdMatrix34_t { float m[3][4]; }\<close> and
  \<^verbatim>\<open>struct HmdMatrix33_t { float m[3][3]; }\<close> have one member each and are identified with it:
  \<^verbatim>\<open>matrix.m[i][j]\<close> is column \<open>j\<close> of row \<open>i\<close>.
\<close>

type_synonym 'f HmdVector3_t = "'f array3"
type_synonym 'f HmdMatrix34_t = "'f array4 array3"
type_synonym 'f HmdMatrix33_t = "'f array3 array3"

text \<open>\<^verbatim>\<open>struct HmdQuaternion_t { double w, x, y, z; }\<close>\<close>

record 'd HmdQuaternion_t =
  qw :: 'd
  qx :: 'd
  qy :: 'd
  qz :: 'd

text \<open>
  \<^verbatim>\<open>enum ETrackingResult\<close>. \<open>TrackingResult_ZeroInitialized\<close> is no enumerator of openvr.h: it
  is the value 0 that the aggregate initialisation \<^verbatim>\<open>= {0}\<close> leaves in the member
  \<^verbatim>\<open>result\<close> until a branch assigns it.
\<close>

datatype ETrackingResult =
    TrackingResult_ZeroInitialized
  | TrackingResult_Uninitialized
  | TrackingResult_Calibrating_InProgress
  | TrackingResult_Calibrating_OutOfRange
  | TrackingResult_Running_OK
  | TrackingResult_Running_OutOfRange
  | TrackingResult_Fallback_RotationOnly

datatype ETrackedControllerRole =
    TrackedControllerRole_Invalid
  | TrackedControllerRole_LeftHand
  | TrackedControllerRole_RightHand
  | TrackedControllerRole_OptOut
  | TrackedControllerRole_Treadmill
  | TrackedControllerRole_Stylus

record 'f TrackedDevicePose_t =
  mDeviceToAbsoluteTracking :: "'f HmdMatrix34_t"
  vVelocity :: "'f HmdVector3_t"
  vAngularVelocity :: "'f HmdVector3_t"
  eTrackingResult :: ETrackingResult
  bPoseIsValid :: bool
  bDeviceIsConnected :: bool

record 'd DriverPose_t =
  poseTimeOffset :: 'd
  qWorldFromDriverRotation :: "'d HmdQuaternion_t"
  vecWorldFromDriverTranslation :: "'d array3"
  qDriverFromHeadRotation :: "'d HmdQuaternion_t"
  vecDriverFromHeadTranslation :: "'d array3"
  vecPosition :: "'d array3"
  vecVelocity :: "'d array3"
  vecAcceleration :: "'d array3"
  qRotation :: "'d HmdQuaternion_t"
  vecAngularVelocity :: "'d array3"
  vecAngularAcceleration :: "'d array3"
  result :: ETrackingResult
  poseIsValid :: bool
  willDriftInYaw :: bool
  shouldApplyHeadModel :: bool
  deviceIsConnected :: bool

text \<open>
  \<^verbatim>\<open>typedef uint32_t TrackedDeviceIndex_t\<close>, with the two constants of openvr.h that the
  source uses.
\<close>

type_synonym TrackedDeviceIndex_t = "32 word"

definition k_unTrackedDeviceIndexInvalid :: TrackedDeviceIndex_t where
  "k_unTrackedDeviceIndexInvalid = 0xFFFFFFFF"

definition k_unMaxTrackedDeviceCount :: nat where
  "k_unMaxTrackedDeviceCount = 64"

subsection \<open>Types of the driver\<close>

text \<open>
  \<^verbatim>\<open>VRPoseConfiguration_t\<close>, with the members that \<^verbatim>\<open>DeviceProvider::GetDeviceConfiguration\<close>
  passes to its constructor. \<^verbatim>\<open>controllerIdOverride\<close> is an \<^verbatim>\<open>int\<close>: its 32 bits are kept as
  a word, which is also what the conversion to the unsigned index keeps.
\<close>

record ('f, 'd) VRPoseConfiguration_t =
  offsetVector :: "'f HmdVector3_t"
  angleOffsetQuaternion :: "'d HmdQuaternion_t"
  poseOffset :: 'f
  controllerOverrideEnabled :: bool
  controllerIdOverride :: "32 word"

text \<open>The message of the discovery pipe; the callback reads its \<^verbatim>\<open>controllerId\<close> only.\<close>

record ControllerPipeData =
  controllerId :: "32 word"

text \<open>
  Modelled from the spec: the class \<^verbatim>\<open>ControllerDiscoveryPipe\<close> is not among the sources. A
  started pipe reports "for a requested role" and delivers its messages to the callback given
  to \<^verbatim>\<open>Start\<close>; the only callback of the source is the one of the constructor below, so a
  pipe is the role it listens for.
\<close>

datatype ControllerDiscoveryPipe = Listening ETrackedControllerRole

text \<open>
  Modelled from the spec: the class \<^verbatim>\<open>Calibration\<close> is not among the sources. "States: Idle,
  Calibrating. Initial state: Idle." The session "holds a frozen maintain pose snapshot while
  open", is "created by StartCalibration" and "destroyed by FinishCalibration or
  CancelCalibration".
\<close>

datatype 'd Calibration = Idle | Calibrating "'d DriverPose_t"

text \<open>
  Modelled from the spec: the methods of \<^verbatim>\<open>Calibration\<close>. A new object is Idle;
  \<^verbatim>\<open>isCalibrating\<close> "reflects current state at all times"; \<^verbatim>\<open>StartCalibration\<close> stores the
  pose it is given "as the session's frozen maintain pose"; \<^verbatim>\<open>CancelCalibration\<close> "discards
  the session". The maintain pose of a session that is not open is \<open>None\<close>.
\<close>

definition Calibration_new :: "'d Calibration" where
  "Calibration_new = Idle"

definition isCalibrating :: "'d Calibration \<Rightarrow> bool" where
  "isCalibrating c = (case c of Idle \<Rightarrow> False | Calibrating p \<Rightarrow> True)"

definition GetMaintainPose :: "'d Calibration \<Rightarrow> 'd DriverPose_t option" where
  "GetMaintainPose c = (case c of Idle \<Rightarrow> None | Calibrating p \<Rightarrow> Some p)"

definition Calibration_StartCalibration ::
  "'d DriverPose_t \<Rightarrow> 'd Calibration \<Rightarrow> 'd Calibration" where
  "Calibration_StartCalibration maintainPose c = Calibrating maintainPose"

definition Calibration_CancelCalibration :: "'d Calibration \<Rightarrow> 'd Calibration" where
  "Calibration_CancelCalibration c = Idle"

text \<open>
  Modelled from the spec: "the real controller's current raw pose, the existing configuration,
  and the handedness flag are passed to a derivation step that produces a new
  PoseConfiguration"; the derivation itself is "referenced but not detailed" and is the
  parameter \<open>D\<close>. The call ends the session and returns the new configuration.
\<close>

definition Calibration_FinishCalibration ::
  "('f TrackedDevicePose_t \<Rightarrow> ('f, 'd) VRPoseConfiguration_t \<Rightarrow> bool
      \<Rightarrow> ('f, 'd) VRPoseConfiguration_t)
   \<Rightarrow> 'f TrackedDevicePose_t \<Rightarrow> ('f, 'd) VRPoseConfiguration_t \<Rightarrow> bool
   \<Rightarrow> 'd Calibration \<Rightarrow> ('f, 'd) VRPoseConfiguration_t \<times> 'd Calibration" where
  "Calibration_FinishCalibration D controllerPose poseConfiguration isRight c =
     (D controllerPose poseConfiguration isRight, Idle)"

text \<open>
  The members of \<^verbatim>\<open>class ControllerPose\<close>. A \<^verbatim>\<open>std::unique_ptr\<close> that was never assigned is
  \<open>None\<close>.
\<close>

record ('f, 'd) ControllerPose_obj =
  m_shadowDeviceOfRole :: ETrackedControllerRole
  m_thisDeviceManufacturer :: string
  m_poseConfiguration :: "('f, 'd) VRPoseConfiguration_t"
  m_shadowControllerId :: TrackedDeviceIndex_t
  m_controllerDiscoverer :: "ControllerDiscoveryPipe option"
  m_calibration :: "'d Calibration"

text \<open>
  What the source can do wrong. \<open>OutOfBounds\<close> is the undefined behaviour of reading the
  local pose array past its end; \<open>NoMaintainPose\<close> is a request for the maintain pose of a
  session that is not open.
\<close>

datatype error = OutOfBounds | NoMaintainPose

subsection \<open>Quaternion.h\<close>

text \<open>
  Modelled from the spec: the functions of \<^verbatim>\<open>Quaternion.h\<close> are not among the sources.
  "Extract rotation submatrix from a pose matrix (drop translation column)."
\<close>

definition GetRotationMatrix :: "'f HmdMatrix34_t \<Rightarrow> 'f HmdMatrix33_t" where
  "GetRotationMatrix matrix =
     Array3 (Array3 (col0 (at0 matrix)) (col1 (at0 matrix)) (col2 (at0 matrix)))
            (Array3 (col0 (at1 matrix)) (col1 (at1 matrix)) (col2 (at1 matrix)))
            (Array3 (col0 (at2 matrix)) (col1 (at2 matrix)) (col2 (at2 matrix)))"

text \<open>
  Modelled from the spec: "Rotate a 3D vector by a rotation matrix (standard matrix-vector
  product)."
\<close>

definition MultiplyMatrix ::
  "('f::{plus,times}) HmdMatrix33_t \<Rightarrow> 'f HmdVector3_t \<Rightarrow> 'f HmdVector3_t" where
  "MultiplyMatrix matrix vec =
     Array3
       (at0 (at0 matrix) * at0 vec + at1 (at0 matrix) * at1 vec + at2 (at0 matrix) * at2 vec)
       (at0 (at1 matrix) * at0 vec + at1 (at1 matrix) * at1 vec + at2 (at1 matrix) * at2 vec)
       (at0 (at2 matrix) * at0 vec + at1 (at2 matrix) * at1 vec + at2 (at2 matrix) * at2 vec)"

text \<open>
  Modelled from the spec: "Add a world-space offset vector to a pose matrix's translation to
  produce a new position."
\<close>

definition CombinePosition ::
  "('f::plus) HmdMatrix34_t \<Rightarrow> 'f HmdVector3_t \<Rightarrow> 'f HmdVector3_t" where
  "CombinePosition matrix vec =
     Array3 (col3 (at0 matrix) + at0 vec)
            (col3 (at1 matrix) + at1 vec)
            (col3 (at2 matrix) + at2 vec)"

text \<open>
  Modelled from the spec: "Compose two unit quaternions (Hamilton product) to combine a base
  orientation with a configured offset; composition order is
  base-orientation-then-local-offset." \<open>MultiplyQuaternion q r\<close> is the Hamilton product
  \<open>q r\<close>.
\<close>

definition MultiplyQuaternion ::
  "('d::{plus,minus,times}) HmdQuaternion_t \<Rightarrow> 'd HmdQuaternion_t \<Rightarrow> 'd HmdQuaternion_t" where
  "MultiplyQuaternion q r =
     \<lparr> qw = qw q * qw r - qx q * qx r - qy q * qy r - qz q * qz r,
       qx = qw q * qx r + qx q * qw r + qy q * qz r - qz q * qy r,
       qy = qw q * qy r - qx q * qz r + qy q * qw r + qz q * qx r,
       qz = qw q * qz r + qx q * qy r - qy q * qx r + qz q * qw r \<rparr>"

subsection \<open>ControllerPose.cpp\<close>

text \<open>
  Modelled from the spec: the default member initialiser of \<^verbatim>\<open>m_shadowControllerId\<close> is in
  \<^verbatim>\<open>ControllerPose.h\<close>, not among the sources; the index is "initialized to an invalid
  sentinel".
\<close>

definition m_shadowControllerId_default :: TrackedDeviceIndex_t where
  "m_shadowControllerId_default = k_unTrackedDeviceIndexInvalid"

text \<open>
  The constructor. With the override the index is the configured one and no pipe is made;
  otherwise the index keeps its default member initialiser and a pipe is started for the
  role, with the callback \<open>OnControllerPipeData\<close>. In both cases a new \<^verbatim>\<open>Calibration\<close>
  is made.
\<close>

definition ControllerPose ::
  "ETrackedControllerRole \<Rightarrow> string \<Rightarrow> ('f, 'd) VRPoseConfiguration_t
   \<Rightarrow> ('f, 'd) ControllerPose_obj" where
  "ControllerPose shadowDeviceOfRole thisDeviceManufacturer poseConfiguration =
     (if controllerOverrideEnabled poseConfiguration then
        \<lparr> m_shadowDeviceOfRole = shadowDeviceOfRole,
          m_thisDeviceManufacturer = thisDeviceManufacturer,
          m_poseConfiguration = poseConfiguration,
          m_shadowControllerId = controllerIdOverride poseConfiguration,
          m_controllerDiscoverer = None,
          m_calibration = Calibration_new \<rparr>
      else
        \<lparr> m_shadowDeviceOfRole = shadowDeviceOfRole,
          m_thisDeviceManufacturer = thisDeviceManufacturer,
          m_poseConfiguration = poseConfiguration,
          m_shadowControllerId = m_shadowControllerId_default,
          m_controllerDiscoverer = Some (Listening shadowDeviceOfRole),
          m_calibration = Calibration_new \<rparr>)"

text \<open>The lambda given to \<^verbatim>\<open>Start\<close>: it stores the reported index (and logs it).\<close>

definition OnControllerPipeData ::
  "ControllerPipeData \<Rightarrow> ('f, 'd) ControllerPose_obj \<Rightarrow> ('f, 'd) ControllerPose_obj" where
  "OnControllerPipeData data s = s\<lparr>m_shadowControllerId := controllerId data\<rparr>"

text \<open>
  Modelled from the spec: the delivery of a report by \<^verbatim>\<open>ControllerDiscoveryPipe\<close>, which is
  not among the sources. The channel delivers "zero or more times" and "on first (and
  potentially subsequent) report(s) the resolved index is overwritten": a message reaches
  the callback of the pipe the object owns; an object without a pipe has registered no
  callback.
\<close>

definition PipeMessage ::
  "ControllerPipeData \<Rightarrow> ('f, 'd) ControllerPose_obj \<Rightarrow> ('f, 'd) ControllerPose_obj" where
  "PipeMessage data s =
     (case m_controllerDiscoverer s of
        None \<Rightarrow> s
      | Some pipe \<Rightarrow> OnControllerPipeData data s)"

text \<open>
  \<^verbatim>\<open>GetControllerPose\<close>. The host fills the local array of \<open>k_unMaxTrackedDeviceCount\<close> poses;
  \<open>host i\<close> is what it writes at index \<open>i\<close>. The source indexes the array with no check, and
  an index past the end is undefined behaviour: the error \<open>OutOfBounds\<close>.
\<close>

definition GetControllerPose ::
  "(nat \<Rightarrow> 'f TrackedDevicePose_t) \<Rightarrow> ('f, 'd) ControllerPose_obj
   \<Rightarrow> error + 'f TrackedDevicePose_t" where
  "GetControllerPose host s =
     (if unat (m_shadowControllerId s) < k_unMaxTrackedDeviceCount
      then Inr (host (unat (m_shadowControllerId s)))
      else Inl OutOfBounds)"

text \<open>\<^verbatim>\<open>vr::DriverPose_t newPose = {0};\<close>\<close>

definition DriverPose_zero :: "('d::zero) DriverPose_t" where
  "DriverPose_zero =
     \<lparr> poseTimeOffset = 0,
       qWorldFromDriverRotation = \<lparr> qw = 0, qx = 0, qy = 0, qz = 0 \<rparr>,
       vecWorldFromDriverTranslation = Array3 0 0 0,
       qDriverFromHeadRotation = \<lparr> qw = 0, qx = 0, qy = 0, qz = 0 \<rparr>,
       vecDriverFromHeadTranslation = Array3 0 0 0,
       vecPosition = Array3 0 0 0,
       vecVelocity = Array3 0 0 0,
       vecAcceleration = Array3 0 0 0,
       qRotation = \<lparr> qw = 0, qx = 0, qy = 0, qz = 0 \<rparr>,
       vecAngularVelocity = Array3 0 0 0,
       vecAngularAcceleration = Array3 0 0 0,
       result = TrackingResult_ZeroInitialized,
       poseIsValid = False,
       willDriftInYaw = False,
       shouldApplyHeadModel = False,
       deviceIsConnected = False \<rparr>"

text \<open>
  \<^verbatim>\<open>UpdatePose\<close>. \<open>G\<close> is \<^verbatim>\<open>GetRotation\<close> of \<^verbatim>\<open>Quaternion.h\<close>, the quaternion of a pose
  matrix, which neither the sources nor the spec define; \<open>W\<close> converts a \<^verbatim>\<open>float\<close> to a
  \<^verbatim>\<open>double\<close>. The function writes no member of the object, so it returns the pose only.
\<close>

definition UpdatePose ::
  "('f HmdMatrix34_t \<Rightarrow> 'd HmdQuaternion_t) \<Rightarrow> ('f \<Rightarrow> 'd)
   \<Rightarrow> (nat \<Rightarrow> 'f TrackedDevicePose_t)
   \<Rightarrow> ('f::{plus,times}, 'd::{zero,one,plus,minus,times}) ControllerPose_obj
   \<Rightarrow> error + 'd DriverPose_t" where
  "UpdatePose G W host s =
     (if isCalibrating (m_calibration s) then
        (case GetMaintainPose (m_calibration s) of
           Some maintainPose \<Rightarrow> Inr maintainPose
         | None \<Rightarrow> Inl NoMaintainPose)
      else
        let newPose = DriverPose_zero;
            newPose = newPose\<lparr>qWorldFromDriverRotation :=
                        (qWorldFromDriverRotation newPose)\<lparr>qw := 1\<rparr>\<rparr>;
            newPose = newPose\<lparr>qDriverFromHeadRotation :=
                        (qDriverFromHeadRotation newPose)\<lparr>qw := 1\<rparr>\<rparr>
        in
          if m_shadowControllerId s \<noteq> k_unTrackedDeviceIndexInvalid then
            (case GetControllerPose host s of
               Inl e \<Rightarrow> Inl e
             | Inr controllerPose \<Rightarrow>
                 if bPoseIsValid controllerPose then
                   let controllerMatrix = mDeviceToAbsoluteTracking controllerPose;
                       controllerRotationMatrix = GetRotationMatrix controllerMatrix;
                       vectorOffset =
                         MultiplyMatrix controllerRotationMatrix
                           (offsetVector (m_poseConfiguration s));
                       newControllerPosition = CombinePosition controllerMatrix vectorOffset
                   in Inr (newPose
                        \<lparr> vecPosition :=
                            Array3 (W (at0 newControllerPosition))
                                   (W (at1 newControllerPosition))
                                   (W (at2 newControllerPosition)),
                          qRotation :=
                            MultiplyQuaternion (G controllerMatrix)
                              (angleOffsetQuaternion (m_poseConfiguration s)),
                          vecAngularVelocity :=
                            Array3 (W (at0 (vAngularVelocity controllerPose)))
                                   (W (at1 (vAngularVelocity controllerPose)))
                                   (W (at2 (vAngularVelocity controllerPose))),
                          vecVelocity :=
                            Array3 (W (at0 (vVelocity controllerPose)))
                                   (W (at1 (vVelocity controllerPose)))
                                   (W (at2 (vVelocity controllerPose))),
                          poseIsValid := True,
                          deviceIsConnected := True,
                          result := TrackingResult_Running_OK,
                          poseTimeOffset := W (poseOffset (m_poseConfiguration s)) \<rparr>)
                 else
                   Inr (newPose
                        \<lparr> poseIsValid := False,
                          deviceIsConnected := True,
                          result := TrackingResult_Uninitialized \<rparr>))
          else
            Inr (newPose
                 \<lparr> result := TrackingResult_Uninitialized,
                   deviceIsConnected := False \<rparr>))"

text \<open>\<^verbatim>\<open>StartCalibration\<close>: the maintain pose is what \<^verbatim>\<open>UpdatePose\<close> returns now.\<close>

definition StartCalibration ::
  "('f HmdMatrix34_t \<Rightarrow> 'd HmdQuaternion_t) \<Rightarrow> ('f \<Rightarrow> 'd)
   \<Rightarrow> (nat \<Rightarrow> 'f TrackedDevicePose_t)
   \<Rightarrow> ('f::{plus,times}, 'd::{zero,one,plus,minus,times}) ControllerPose_obj
   \<Rightarrow> error + ('f, 'd) ControllerPose_obj" where
  "StartCalibration G W host s =
     (case UpdatePose G W host s of
        Inl e \<Rightarrow> Inl e
      | Inr pose \<Rightarrow>
          Inr (s\<lparr>m_calibration := Calibration_StartCalibration pose (m_calibration s)\<rparr>))"

text \<open>\<^verbatim>\<open>CancelCalibration\<close> forwards to the calibration object.\<close>

definition CancelCalibration ::
  "('f, 'd) ControllerPose_obj \<Rightarrow> ('f, 'd) ControllerPose_obj" where
  "CancelCalibration s = s\<lparr>m_calibration := Calibration_CancelCalibration (m_calibration s)\<rparr>"

text \<open>\<^verbatim>\<open>isRightHand\<close> compares the role the object was made with.\<close>

definition isRightHand :: "('f, 'd) ControllerPose_obj \<Rightarrow> bool" where
  "isRightHand s = (m_shadowDeviceOfRole s = TrackedControllerRole_RightHand)"

text \<open>
  \<^verbatim>\<open>FinishCalibration\<close>. With the sentinel as index it cancels and returns (the line it
  writes to the debug log is no part of the object); otherwise it fetches the controller's
  pose, hands it to the calibration object with the configuration and the handedness, and
  assigns the configuration that comes back.
\<close>

definition FinishCalibration ::
  "('f TrackedDevicePose_t \<Rightarrow> ('f, 'd) VRPoseConfiguration_t \<Rightarrow> bool
      \<Rightarrow> ('f, 'd) VRPoseConfiguration_t)
   \<Rightarrow> (nat \<Rightarrow> 'f TrackedDevicePose_t) \<Rightarrow> ('f, 'd) ControllerPose_obj
   \<Rightarrow> error + ('f, 'd) ControllerPose_obj" where
  "FinishCalibration D host s =
     (if m_shadowControllerId s = k_unTrackedDeviceIndexInvalid then
        Inr (CancelCalibration s)
      else
        (case GetControllerPose host s of
           Inl e \<Rightarrow> Inl e
         | Inr controllerPose \<Rightarrow>
             (case Calibration_FinishCalibration D controllerPose (m_poseConfiguration s)
                     (isRightHand s) (m_calibration s) of
                (newConfiguration, c) \<Rightarrow>
                  Inr (s\<lparr>m_calibration := c, m_poseConfiguration := newConfiguration\<rparr>))))"

subsection \<open>Sequences of calls\<close>

text \<open>
  What the driver layer and the discovery channel do to the object, in the order they do it:
  a pose request and the two calibration calls that read the host come with the host's
  poses at that moment.
\<close>

datatype 'f call =
    CallUpdatePose "nat \<Rightarrow> 'f TrackedDevicePose_t"
  | CallStartCalibration "nat \<Rightarrow> 'f TrackedDevicePose_t"
  | CallFinishCalibration "nat \<Rightarrow> 'f TrackedDevicePose_t"
  | CallCancelCalibration
  | CallPipeMessage ControllerPipeData

fun step ::
  "('f HmdMatrix34_t \<Rightarrow> 'd HmdQuaternion_t) \<Rightarrow> ('f \<Rightarrow> 'd)
   \<Rightarrow> ('f TrackedDevicePose_t \<Rightarrow> ('f, 'd) VRPoseConfiguration_t \<Rightarrow> bool
        \<Rightarrow> ('f, 'd) VRPoseConfiguration_t)
   \<Rightarrow> 'f call
   \<Rightarrow> ('f::{plus,times}, 'd::{zero,one,plus,minus,times}) ControllerPose_obj
   \<Rightarrow> error + ('f, 'd) ControllerPose_obj" where
  "step G W D (CallUpdatePose host) s =
     (case UpdatePose G W host s of Inl e \<Rightarrow> Inl e | Inr pose \<Rightarrow> Inr s)"
| "step G W D (CallStartCalibration host) s = StartCalibration G W host s"
| "step G W D (CallFinishCalibration host) s = FinishCalibration D host s"
| "step G W D CallCancelCalibration s = Inr (CancelCalibration s)"
| "step G W D (CallPipeMessage data) s = Inr (PipeMessage data s)"

fun run ::
  "('f HmdMatrix34_t \<Rightarrow> 'd HmdQuaternion_t) \<Rightarrow> ('f \<Rightarrow> 'd)
   \<Rightarrow> ('f TrackedDevicePose_t \<Rightarrow> ('f, 'd) VRPoseConfiguration_t \<Rightarrow> bool
        \<Rightarrow> ('f, 'd) VRPoseConfiguration_t)
   \<Rightarrow> 'f call list
   \<Rightarrow> ('f::{plus,times}, 'd::{zero,one,plus,minus,times}) ControllerPose_obj
   \<Rightarrow> error + ('f, 'd) ControllerPose_obj" where
  "run G W D [] s = Inr s"
| "run G W D (c # cs) s =
     (case step G W D c s of Inl e \<Rightarrow> Inl e | Inr s' \<Rightarrow> run G W D cs s')"

text \<open>The calls that leave an open session open.\<close>

fun in_session :: "'f call \<Rightarrow> bool" where
  "in_session (CallUpdatePose host) = True"
| "in_session (CallStartCalibration host) = True"
| "in_session (CallFinishCalibration host) = False"
| "in_session CallCancelCalibration = False"
| "in_session (CallPipeMessage data) = True"

text \<open>The calls that are no report of the discovery channel.\<close>

fun no_report :: "'f call \<Rightarrow> bool" where
  "no_report (CallPipeMessage data) = False"
| "no_report c = True"

text \<open>The calls that do not resolve the identity: every report carries the sentinel.\<close>

fun not_resolving :: "'f call \<Rightarrow> bool" where
  "not_resolving (CallPipeMessage data) = (controllerId data = k_unTrackedDeviceIndexInvalid)"
| "not_resolving c = True"

text \<open>
  The pose that \<^verbatim>\<open>UpdatePose\<close> builds when it sets nothing but the two identity rotations and
  the three status fields.
\<close>

definition status_pose :: "bool \<Rightarrow> ('d::{zero,one}) DriverPose_t" where
  "status_pose isConnected =
     \<lparr> poseTimeOffset = 0,
       qWorldFromDriverRotation = \<lparr> qw = 1, qx = 0, qy = 0, qz = 0 \<rparr>,
       vecWorldFromDriverTranslation = Array3 0 0 0,
       qDriverFromHeadRotation = \<lparr> qw = 1, qx = 0, qy = 0, qz = 0 \<rparr>,
       vecDriverFromHeadTranslation = Array3 0 0 0,
       vecPosition = Array3 0 0 0,
       vecVelocity = Array3 0 0 0,
       vecAcceleration = Array3 0 0 0,
       qRotation = \<lparr> qw = 0, qx = 0, qy = 0, qz = 0 \<rparr>,
       vecAngularVelocity = Array3 0 0 0,
       vecAngularAcceleration = Array3 0 0 0,
       result = TrackingResult_Uninitialized,
       poseIsValid = False,
       willDriftInYaw = False,
       shouldApplyHeadModel = False,
       deviceIsConnected = isConnected \<rparr>"

text \<open>
  An identity that was never resolved: the index is the sentinel, and a frozen pose, if there
  is one, is the disconnected pose.
\<close>

definition never_resolved :: "('f, 'd::{zero,one}) ControllerPose_obj \<Rightarrow> bool" where
  "never_resolved s \<longleftrightarrow>
     m_shadowControllerId s = k_unTrackedDeviceIndexInvalid \<and>
     (m_calibration s = Idle \<or> m_calibration s = Calibrating (status_pose False))"

subsection \<open>Concrete inputs\<close>

text \<open>
  A host on which device 3 is tracked at position (1, 2, 3) with the identity rotation and
  every other device is untracked; a configuration with the offset (0.05, 0, 0), no
  rotation offset and no override; its variant with the override index 64.
\<close>

definition ex_tracked :: "real TrackedDevicePose_t" where
  "ex_tracked =
     \<lparr> mDeviceToAbsoluteTracking =
         Array3 (Array4 1 0 0 1) (Array4 0 1 0 2) (Array4 0 0 1 3),
       vVelocity = Array3 4 5 6,
       vAngularVelocity = Array3 7 8 9,
       eTrackingResult = TrackingResult_Running_OK,
       bPoseIsValid = True,
       bDeviceIsConnected = True \<rparr>"

definition ex_host :: "nat \<Rightarrow> real TrackedDevicePose_t" where
  "ex_host i = (if i = 3 then ex_tracked else ex_tracked\<lparr>bPoseIsValid := False\<rparr>)"

definition ex_GetRotation :: "real HmdMatrix34_t \<Rightarrow> real HmdQuaternion_t" where
  "ex_GetRotation matrix = \<lparr> qw = 1, qx = 0, qy = 0, qz = 0 \<rparr>"

definition ex_widen :: "real \<Rightarrow> real" where
  "ex_widen a = a"

definition ex_configuration :: "(real, real) VRPoseConfiguration_t" where
  "ex_configuration =
     \<lparr> offsetVector = Array3 0.05 0 0,
       angleOffsetQuaternion = \<lparr> qw = 1, qx = 0, qy = 0, qz = 0 \<rparr>,
       poseOffset = 0.01,
       controllerOverrideEnabled = False,
       controllerIdOverride = 0xFFFFFFFF \<rparr>"

definition ex_override :: "(real, real) VRPoseConfiguration_t" where
  "ex_override = ex_configuration\<lparr>controllerOverrideEnabled := True, controllerIdOverride := 64\<rparr>"

definition ex_derive ::
  "real TrackedDevicePose_t \<Rightarrow> (real, real) VRPoseConfiguration_t \<Rightarrow> bool
   \<Rightarrow> (real, real) VRPoseConfiguration_t" where
  "ex_derive controllerPose poseConfiguration isRight =
     poseConfiguration\<lparr>offsetVector :=
       (if isRight then vVelocity controllerPose else vAngularVelocity controllerPose)\<rparr>"

text \<open>The object of the right hand, made without override, after the report of index 3.\<close>

definition ex_resolved :: "(real, real) ControllerPose_obj" where
  "ex_resolved =
     PipeMessage \<lparr> controllerId = 3 \<rparr>
       (ControllerPose TrackedControllerRole_RightHand ''lucidgloves'' ex_configuration)"

text \<open>The new object of the right hand without override, and the one with the override 64.\<close>

definition ex_new :: "(real, real) ControllerPose_obj" where
  "ex_new = ControllerPose TrackedControllerRole_RightHand ''lucidgloves'' ex_configuration"

definition ex_overridden :: "(real, real) ControllerPose_obj" where
  "ex_overridden = ControllerPose TrackedControllerRole_RightHand ''lucidgloves'' ex_override"

text \<open>The pose of the glove on \<open>ex_host\<close> once device 3 is shadowed.\<close>

definition ex_pose :: "real DriverPose_t" where
  "ex_pose =
     \<lparr> poseTimeOffset = 0.01,
       qWorldFromDriverRotation = \<lparr> qw = 1, qx = 0, qy = 0, qz = 0 \<rparr>,
       vecWorldFromDriverTranslation = Array3 0 0 0,
       qDriverFromHeadRotation = \<lparr> qw = 1, qx = 0, qy = 0, qz = 0 \<rparr>,
       vecDriverFromHeadTranslation = Array3 0 0 0,
       vecPosition = Array3 1.05 2 3,
       vecVelocity = Array3 4 5 6,
       vecAcceleration = Array3 0 0 0,
       qRotation = \<lparr> qw = 1, qx = 0, qy = 0, qz = 0 \<rparr>,
       vecAngularVelocity = Array3 7 8 9,
       vecAngularAcceleration = Array3 0 0 0,
       result = TrackingResult_Running_OK,
       poseIsValid = True,
       willDriftInYaw = False,
       shouldApplyHeadModel = False,
       deviceIsConnected = True \<rparr>"

text \<open>A host on which no device is tracked.\<close>

definition ex_dark :: "nat \<Rightarrow> real TrackedDevicePose_t" where
  "ex_dark i = ex_tracked\<lparr>bPoseIsValid := False\<rparr>"

text \<open>The configuration with the override index 5, and the object made with it.\<close>

definition ex_override5 :: "(real, real) VRPoseConfiguration_t" where
  "ex_override5 = ex_configuration\<lparr>controllerOverrideEnabled := True, controllerIdOverride := 5\<rparr>"

definition ex_overridden5 :: "(real, real) ControllerPose_obj" where
  "ex_overridden5 = ControllerPose TrackedControllerRole_RightHand ''lucidgloves'' ex_override5"

section \<open>Properties\<close>

subsection \<open>What the calls preserve\<close>

lemma UpdatePose_Calibrating:
  "m_calibration s = Calibrating p \<Longrightarrow> UpdatePose G W host s = Inr p"
  by (simp add: UpdatePose_def isCalibrating_def GetMaintainPose_def)

lemma UpdatePose_Idle_unresolved:
  "m_calibration s = Idle \<Longrightarrow> m_shadowControllerId s = k_unTrackedDeviceIndexInvalid
   \<Longrightarrow> UpdatePose G W host s = Inr (status_pose False)"
  by (simp add: UpdatePose_def isCalibrating_def DriverPose_zero_def status_pose_def)

lemma step_members:
  assumes "step G W D c s = Inr s'"
  shows "m_shadowDeviceOfRole s' = m_shadowDeviceOfRole s"
    and "m_controllerDiscoverer s' = m_controllerDiscoverer s"
    and "no_report c \<or> m_controllerDiscoverer s = None
         \<Longrightarrow> m_shadowControllerId s' = m_shadowControllerId s"
  using assms
  by (cases c; auto simp: StartCalibration_def FinishCalibration_def CancelCalibration_def
        PipeMessage_def OnControllerPipeData_def Calibration_FinishCalibration_def
        split: sum.splits if_splits option.splits)+

lemma run_members:
  assumes "run G W D cs s = Inr s'"
  shows "m_shadowDeviceOfRole s' = m_shadowDeviceOfRole s \<and>
         m_controllerDiscoverer s' = m_controllerDiscoverer s \<and>
         (list_all no_report cs \<or> m_controllerDiscoverer s = None
            \<longrightarrow> m_shadowControllerId s' = m_shadowControllerId s)"
  using assms
proof (induction cs arbitrary: s)
  case Nil
  then show ?case by simp
next
  case (Cons c cs)
  from Cons.prems obtain s1 where s1: "step G W D c s = Inr s1" and r: "run G W D cs s1 = Inr s'"
    by (auto split: sum.splits)
  from Cons.IH [OF r] step_members [OF s1] show ?case
    by auto
qed

lemma step_in_session:
  assumes "m_calibration s = Calibrating p" and "in_session c"
  shows "\<exists>s'. step G W D c s = Inr s' \<and> m_calibration s' = Calibrating p"
  using assms
  by (cases c)
     (simp_all add: UpdatePose_Calibrating StartCalibration_def Calibration_StartCalibration_def
        PipeMessage_def OnControllerPipeData_def split: option.splits)

lemma run_in_session:
  assumes "m_calibration s = Calibrating p" and "list_all in_session cs"
  shows "\<exists>s'. run G W D cs s = Inr s' \<and> m_calibration s' = Calibrating p"
  using assms
proof (induction cs arbitrary: s)
  case Nil
  then show ?case by simp
next
  case (Cons c cs)
  then obtain s1 where s1: "step G W D c s = Inr s1" and c1: "m_calibration s1 = Calibrating p"
    using step_in_session [of s p c G W D] by auto
  from Cons.IH [OF c1] Cons.prems(2) s1 show ?case
    by simp
qed

lemma step_never_resolved:
  assumes "never_resolved s" and "not_resolving c"
  shows "\<exists>s'. step G W D c s = Inr s' \<and> never_resolved s'"
  using assms
  by (cases c)
     (auto simp: never_resolved_def UpdatePose_Calibrating UpdatePose_Idle_unresolved
        StartCalibration_def Calibration_StartCalibration_def FinishCalibration_def
        CancelCalibration_def Calibration_CancelCalibration_def
        PipeMessage_def OnControllerPipeData_def split: option.splits)

lemma run_never_resolved:
  assumes "never_resolved s" and "list_all not_resolving cs"
  shows "\<exists>s'. run G W D cs s = Inr s' \<and> never_resolved s'"
  using assms
proof (induction cs arbitrary: s)
  case Nil
  then show ?case by simp
next
  case (Cons c cs)
  then obtain s1 where s1: "step G W D c s = Inr s1" and n1: "never_resolved s1"
    using step_never_resolved [of s c G W D] by auto
  from Cons.IH [OF n1] Cons.prems(2) s1 show ?case
    by simp
qed

subsection \<open>Evaluating the concrete inputs\<close>

lemmas ex_defs = ControllerPose_def Calibration_new_def m_shadowControllerId_default_def
  PipeMessage_def OnControllerPipeData_def ex_configuration_def ex_override_def
  k_unTrackedDeviceIndexInvalid_def k_unMaxTrackedDeviceCount_def isCalibrating_def
  ex_host_def ex_tracked_def ex_GetRotation_def ex_widen_def ex_derive_def

subsection \<open>The tracked controller\<close>

text \<open>
  C1. In a frame outside calibration in which the index is not the sentinel, is within the
  host's array and the pose the host gives for it is valid, \<open>UpdatePose\<close> returns the pose
  whose position is the translation column of the controller's matrix plus the configured
  offset vector multiplied by its rotation part, whose orientation is the Hamilton product
  of the controller's rotation \<open>G M\<close> (on the left) and the configured offset quaternion (on
  the right), whose two velocities are the controller's, with \<open>poseIsValid\<close> and
  \<open>deviceIsConnected\<close> true, the result \<open>Running_OK\<close> and the configured time offset. The
  other fields keep their initial values.
\<close>

theorem UpdatePose_tracked:
  assumes "\<not> isCalibrating (m_calibration s)"
    and "m_shadowControllerId s \<noteq> k_unTrackedDeviceIndexInvalid"
    and "unat (m_shadowControllerId s) < k_unMaxTrackedDeviceCount"
    and "bPoseIsValid (host (unat (m_shadowControllerId s)))"
  shows
    "let controllerPose = host (unat (m_shadowControllerId s));
         M = mDeviceToAbsoluteTracking controllerPose;
         off = offsetVector (m_poseConfiguration s);
         q = G M;
         r = angleOffsetQuaternion (m_poseConfiguration s)
     in UpdatePose G W host s = Inr
          \<lparr> poseTimeOffset = W (poseOffset (m_poseConfiguration s)),
            qWorldFromDriverRotation = \<lparr> qw = 1, qx = 0, qy = 0, qz = 0 \<rparr>,
            vecWorldFromDriverTranslation = Array3 0 0 0,
            qDriverFromHeadRotation = \<lparr> qw = 1, qx = 0, qy = 0, qz = 0 \<rparr>,
            vecDriverFromHeadTranslation = Array3 0 0 0,
            vecPosition = Array3
              (W (col3 (at0 M)
                  + (col0 (at0 M) * at0 off + col1 (at0 M) * at1 off + col2 (at0 M) * at2 off)))
              (W (col3 (at1 M)
                  + (col0 (at1 M) * at0 off + col1 (at1 M) * at1 off + col2 (at1 M) * at2 off)))
              (W (col3 (at2 M)
                  + (col0 (at2 M) * at0 off + col1 (at2 M) * at1 off + col2 (at2 M) * at2 off))),
            vecVelocity = Array3 (W (at0 (vVelocity controllerPose)))
                                 (W (at1 (vVelocity controllerPose)))
                                 (W (at2 (vVelocity controllerPose))),
            vecAcceleration = Array3 0 0 0,
            qRotation =
              \<lparr> qw = qw q * qw r - qx q * qx r - qy q * qy r - qz q * qz r,
                qx = qw q * qx r + qx q * qw r + qy q * qz r - qz q * qy r,
                qy = qw q * qy r - qx q * qz r + qy q * qw r + qz q * qx r,
                qz = qw q * qz r + qx q * qy r - qy q * qx r + qz q * qw r \<rparr>,
            vecAngularVelocity = Array3 (W (at0 (vAngularVelocity controllerPose)))
                                        (W (at1 (vAngularVelocity controllerPose)))
                                        (W (at2 (vAngularVelocity controllerPose))),
            vecAngularAcceleration = Array3 0 0 0,
            result = TrackingResult_Running_OK,
            poseIsValid = True,
            willDriftInYaw = False,
            shouldApplyHeadModel = False,
            deviceIsConnected = True \<rparr>"
  using assms
  by (simp add: UpdatePose_def GetControllerPose_def DriverPose_zero_def Let_def
        GetRotationMatrix_def MultiplyMatrix_def CombinePosition_def MultiplyQuaternion_def)

text \<open>
  The instance of C1 at the controller at (1, 2, 3) with the identity rotation and the
  offset (0.05, 0, 0): the position is (1.05, 2, 3).
\<close>

theorem UpdatePose_tracked_witness:
  "\<not> isCalibrating (m_calibration ex_resolved) \<and>
   m_shadowControllerId ex_resolved \<noteq> k_unTrackedDeviceIndexInvalid \<and>
   unat (m_shadowControllerId ex_resolved) < k_unMaxTrackedDeviceCount \<and>
   bPoseIsValid (ex_host (unat (m_shadowControllerId ex_resolved))) \<and>
   UpdatePose ex_GetRotation ex_widen ex_host ex_resolved = Inr
     \<lparr> poseTimeOffset = 0.01,
       qWorldFromDriverRotation = \<lparr> qw = 1, qx = 0, qy = 0, qz = 0 \<rparr>,
       vecWorldFromDriverTranslation = Array3 0 0 0,
       qDriverFromHeadRotation = \<lparr> qw = 1, qx = 0, qy = 0, qz = 0 \<rparr>,
       vecDriverFromHeadTranslation = Array3 0 0 0,
       vecPosition = Array3 1.05 2 3,
       vecVelocity = Array3 4 5 6,
       vecAcceleration = Array3 0 0 0,
       qRotation = \<lparr> qw = 1, qx = 0, qy = 0, qz = 0 \<rparr>,
       vecAngularVelocity = Array3 7 8 9,
       vecAngularAcceleration = Array3 0 0 0,
       result = TrackingResult_Running_OK,
       poseIsValid = True,
       willDriftInYaw = False,
       shouldApplyHeadModel = False,
       deviceIsConnected = True \<rparr>"
proof -
  have h1: "\<not> isCalibrating (m_calibration ex_resolved)"
    by (simp add: ex_resolved_def ex_defs)
  have h2: "m_shadowControllerId ex_resolved \<noteq> k_unTrackedDeviceIndexInvalid"
    by (simp add: ex_resolved_def ex_defs)
  have h3: "unat (m_shadowControllerId ex_resolved) < k_unMaxTrackedDeviceCount"
    by (simp add: ex_resolved_def ex_defs)
  have h4: "bPoseIsValid (ex_host (unat (m_shadowControllerId ex_resolved)))"
    by (simp add: ex_resolved_def ex_defs)
  have c: "m_poseConfiguration ex_resolved = ex_configuration"
    and i: "unat (m_shadowControllerId ex_resolved) = 3"
    by (simp_all add: ex_resolved_def ex_defs)
  from UpdatePose_tracked [where s = ex_resolved and host = ex_host and G = ex_GetRotation
      and W = ex_widen] h1 h2 h3 h4
  show ?thesis
    by (simp add: Let_def c i ex_host_def ex_tracked_def ex_GetRotation_def ex_widen_def
          ex_configuration_def)
qed

subsection \<open>The unresolved identity\<close>

text \<open>
  C6. In a frame outside calibration in which the index is the sentinel, \<open>UpdatePose\<close>
  returns the pose with \<open>deviceIsConnected\<close> false, the result \<open>Uninitialized\<close> and
  \<open>poseIsValid\<close> false; every other field has its initial value, which is zero or false
  except for the world-from-driver and driver-from-head rotations, the identity quaternions.
\<close>

theorem UpdatePose_unresolved:
  assumes "\<not> isCalibrating (m_calibration s)"
    and "m_shadowControllerId s = k_unTrackedDeviceIndexInvalid"
  shows "UpdatePose G W host s = Inr
           \<lparr> poseTimeOffset = 0,
             qWorldFromDriverRotation = \<lparr> qw = 1, qx = 0, qy = 0, qz = 0 \<rparr>,
             vecWorldFromDriverTranslation = Array3 0 0 0,
             qDriverFromHeadRotation = \<lparr> qw = 1, qx = 0, qy = 0, qz = 0 \<rparr>,
             vecDriverFromHeadTranslation = Array3 0 0 0,
             vecPosition = Array3 0 0 0,
             vecVelocity = Array3 0 0 0,
             vecAcceleration = Array3 0 0 0,
             qRotation = \<lparr> qw = 0, qx = 0, qy = 0, qz = 0 \<rparr>,
             vecAngularVelocity = Array3 0 0 0,
             vecAngularAcceleration = Array3 0 0 0,
             result = TrackingResult_Uninitialized,
             poseIsValid = False,
             willDriftInYaw = False,
             shouldApplyHeadModel = False,
             deviceIsConnected = False \<rparr>"
  using assms by (simp add: UpdatePose_def DriverPose_zero_def)

text \<open>The instance of C6 at the new object made without override.\<close>

theorem UpdatePose_unresolved_witness:
  "\<not> isCalibrating (m_calibration ex_new) \<and>
   m_shadowControllerId ex_new = k_unTrackedDeviceIndexInvalid \<and>
   UpdatePose ex_GetRotation ex_widen ex_host ex_new = Inr
     \<lparr> poseTimeOffset = 0,
       qWorldFromDriverRotation = \<lparr> qw = 1, qx = 0, qy = 0, qz = 0 \<rparr>,
       vecWorldFromDriverTranslation = Array3 0 0 0,
       qDriverFromHeadRotation = \<lparr> qw = 1, qx = 0, qy = 0, qz = 0 \<rparr>,
       vecDriverFromHeadTranslation = Array3 0 0 0,
       vecPosition = Array3 0 0 0,
       vecVelocity = Array3 0 0 0,
       vecAcceleration = Array3 0 0 0,
       qRotation = \<lparr> qw = 0, qx = 0, qy = 0, qz = 0 \<rparr>,
       vecAngularVelocity = Array3 0 0 0,
       vecAngularAcceleration = Array3 0 0 0,
       result = TrackingResult_Uninitialized,
       poseIsValid = False,
       willDriftInYaw = False,
       shouldApplyHeadModel = False,
       deviceIsConnected = False \<rparr>"
proof -
  have h1: "\<not> isCalibrating (m_calibration ex_new)"
    and h2: "m_shadowControllerId ex_new = k_unTrackedDeviceIndexInvalid"
    by (simp_all add: ex_new_def ex_defs)
  from UpdatePose_unresolved [where s = ex_new and host = ex_host and G = ex_GetRotation
      and W = ex_widen, OF h1 h2] h1 h2
  show ?thesis by simp
qed

subsection \<open>The untracked controller\<close>

text \<open>
  C7. In a frame outside calibration in which the index is not the sentinel and is within
  the host's array, and the pose the host gives for it is not valid, \<open>UpdatePose\<close> returns
  the pose with \<open>deviceIsConnected\<close> true, \<open>poseIsValid\<close> false and the result
  \<open>Uninitialized\<close> (and every other field at its initial value).
\<close>

theorem UpdatePose_untracked:
  assumes "\<not> isCalibrating (m_calibration s)"
    and "m_shadowControllerId s \<noteq> k_unTrackedDeviceIndexInvalid"
    and "unat (m_shadowControllerId s) < k_unMaxTrackedDeviceCount"
    and "\<not> bPoseIsValid (host (unat (m_shadowControllerId s)))"
  shows "UpdatePose G W host s = Inr
           \<lparr> poseTimeOffset = 0,
             qWorldFromDriverRotation = \<lparr> qw = 1, qx = 0, qy = 0, qz = 0 \<rparr>,
             vecWorldFromDriverTranslation = Array3 0 0 0,
             qDriverFromHeadRotation = \<lparr> qw = 1, qx = 0, qy = 0, qz = 0 \<rparr>,
             vecDriverFromHeadTranslation = Array3 0 0 0,
             vecPosition = Array3 0 0 0,
             vecVelocity = Array3 0 0 0,
             vecAcceleration = Array3 0 0 0,
             qRotation = \<lparr> qw = 0, qx = 0, qy = 0, qz = 0 \<rparr>,
             vecAngularVelocity = Array3 0 0 0,
             vecAngularAcceleration = Array3 0 0 0,
             result = TrackingResult_Uninitialized,
             poseIsValid = False,
             willDriftInYaw = False,
             shouldApplyHeadModel = False,
             deviceIsConnected = True \<rparr>"
  using assms by (simp add: UpdatePose_def GetControllerPose_def DriverPose_zero_def)

text \<open>The instance of C7 at the object that shadows device 3, on a host that tracks nothing.\<close>

theorem UpdatePose_untracked_witness:
  "\<not> isCalibrating (m_calibration ex_resolved) \<and>
   m_shadowControllerId ex_resolved \<noteq> k_unTrackedDeviceIndexInvalid \<and>
   unat (m_shadowControllerId ex_resolved) < k_unMaxTrackedDeviceCount \<and>
   \<not> bPoseIsValid (ex_dark (unat (m_shadowControllerId ex_resolved))) \<and>
   UpdatePose ex_GetRotation ex_widen ex_dark ex_resolved = Inr (status_pose True)"
proof -
  have h1: "\<not> isCalibrating (m_calibration ex_resolved)"
    and h2: "m_shadowControllerId ex_resolved \<noteq> k_unTrackedDeviceIndexInvalid"
    and h3: "unat (m_shadowControllerId ex_resolved) < k_unMaxTrackedDeviceCount"
    and h4: "\<not> bPoseIsValid (ex_dark (unat (m_shadowControllerId ex_resolved)))"
    by (simp_all add: ex_resolved_def ex_dark_def ex_defs)
  from UpdatePose_untracked [where s = ex_resolved and host = ex_dark and G = ex_GetRotation
      and W = ex_widen, OF h1 h2 h3 h4] h1 h2 h3 h4
  show ?thesis by (simp add: status_pose_def)
qed

subsection \<open>Finishing a calibration without an identity\<close>

text \<open>
  C4. With the index at the sentinel, \<open>FinishCalibration\<close> is \<open>CancelCalibration\<close>: it returns
  the object that \<open>CancelCalibration\<close> returns, in which the session is closed (the state is
  Idle) and the configuration is the one before the call; nothing but the calibration state
  differs from the object before the call.
\<close>

theorem FinishCalibration_unresolved:
  assumes "m_shadowControllerId s = k_unTrackedDeviceIndexInvalid"
  shows "FinishCalibration D host s = Inr (CancelCalibration s) \<and>
         m_calibration (CancelCalibration s) = Idle \<and>
         \<not> isCalibrating (m_calibration (CancelCalibration s)) \<and>
         m_poseConfiguration (CancelCalibration s) = m_poseConfiguration s \<and>
         CancelCalibration s = s\<lparr>m_calibration := Idle\<rparr>"
  using assms
  by (simp add: FinishCalibration_def CancelCalibration_def Calibration_CancelCalibration_def
        isCalibrating_def)

text \<open>
  The instance of C4 at the new object made without override, with a session open on it:
  the call gives the new object back.
\<close>

theorem FinishCalibration_unresolved_witness:
  "m_shadowControllerId (ex_new\<lparr>m_calibration := Calibrating (status_pose False)\<rparr>)
     = k_unTrackedDeviceIndexInvalid \<and>
   isCalibrating (m_calibration (ex_new\<lparr>m_calibration := Calibrating (status_pose False)\<rparr>)) \<and>
   FinishCalibration ex_derive ex_host (ex_new\<lparr>m_calibration := Calibrating (status_pose False)\<rparr>)
     = Inr ex_new \<and>
   m_calibration ex_new = Idle \<and>
   m_poseConfiguration ex_new = ex_configuration"
proof -
  let ?s = "ex_new\<lparr>m_calibration := Calibrating (status_pose False)\<rparr>"
  have h: "m_shadowControllerId ?s = k_unTrackedDeviceIndexInvalid"
    by (simp add: ex_new_def ex_defs)
  have c: "CancelCalibration ?s = ex_new"
    by (simp add: CancelCalibration_def Calibration_CancelCalibration_def ex_new_def
          ControllerPose_def Calibration_new_def)
  from FinishCalibration_unresolved [where s = ?s and D = ex_derive and host = ex_host, OF h] h c
  show ?thesis
    by (simp add: isCalibrating_def) (simp add: ex_new_def ControllerPose_def ex_configuration_def)
qed

subsection \<open>Determinism of the pose\<close>

text \<open>
  C8. Outside calibration the result of \<open>UpdatePose\<close> is a function of the index, the
  configuration and the pose the host gives for that index: two calls that agree on these
  three return the same result, whatever else differs in the object or in the host's other
  poses. A pose request leaves the object as it was, so the second of two requests sees the
  state the first one saw. With the index at the sentinel or within the host's array the
  result is a pose.
\<close>

theorem UpdatePose_deterministic:
  assumes "\<not> isCalibrating (m_calibration s)"
    and "\<not> isCalibrating (m_calibration s')"
    and "m_shadowControllerId s' = m_shadowControllerId s"
    and "m_poseConfiguration s' = m_poseConfiguration s"
    and "host' (unat (m_shadowControllerId s)) = host (unat (m_shadowControllerId s))"
  shows "UpdatePose G W host' s' = UpdatePose G W host s \<and>
         (\<forall>pose. UpdatePose G W host s = Inr pose \<longrightarrow>
            run G W D [CallUpdatePose host, CallUpdatePose host'] s = Inr s) \<and>
         (m_shadowControllerId s = k_unTrackedDeviceIndexInvalid \<or>
          unat (m_shadowControllerId s) < k_unMaxTrackedDeviceCount
            \<longrightarrow> (\<exists>pose. UpdatePose G W host s = Inr pose))"
proof -
  have e: "UpdatePose G W host' s' = UpdatePose G W host s"
    using assms by (simp add: UpdatePose_def GetControllerPose_def Let_def)
  have e': "UpdatePose G W host' s = UpdatePose G W host s"
    using assms(1,5) by (simp add: UpdatePose_def GetControllerPose_def Let_def)
  have r: "run G W D [CallUpdatePose host, CallUpdatePose host'] s = Inr s"
    if "UpdatePose G W host s = Inr pose" for pose
    using that e' by simp
  have t: "\<exists>pose. UpdatePose G W host s = Inr pose"
    if "m_shadowControllerId s = k_unTrackedDeviceIndexInvalid \<or>
        unat (m_shadowControllerId s) < k_unMaxTrackedDeviceCount"
    using that assms(1) by (auto simp: UpdatePose_def GetControllerPose_def Let_def)
  from e r t show ?thesis by blast
qed

text \<open>
  The instance of C8 at the object that shadows device 3 and a copy of it with another
  manufacturer name, on two hosts that agree on device 3.
\<close>

theorem UpdatePose_deterministic_witness:
  "\<not> isCalibrating (m_calibration ex_resolved) \<and>
   \<not> isCalibrating (m_calibration (ex_resolved\<lparr>m_thisDeviceManufacturer := ''other''\<rparr>)) \<and>
   m_shadowControllerId (ex_resolved\<lparr>m_thisDeviceManufacturer := ''other''\<rparr>)
     = m_shadowControllerId ex_resolved \<and>
   m_poseConfiguration (ex_resolved\<lparr>m_thisDeviceManufacturer := ''other''\<rparr>)
     = m_poseConfiguration ex_resolved \<and>
   (\<lambda>i. ex_tracked) (unat (m_shadowControllerId ex_resolved))
     = ex_host (unat (m_shadowControllerId ex_resolved)) \<and>
   unat (m_shadowControllerId ex_resolved) < k_unMaxTrackedDeviceCount \<and>
   UpdatePose ex_GetRotation ex_widen ex_host ex_resolved = Inr ex_pose \<and>
   UpdatePose ex_GetRotation ex_widen (\<lambda>i. ex_tracked)
     (ex_resolved\<lparr>m_thisDeviceManufacturer := ''other''\<rparr>) = Inr ex_pose \<and>
   run ex_GetRotation ex_widen ex_derive [CallUpdatePose ex_host, CallUpdatePose (\<lambda>i. ex_tracked)]
     ex_resolved = Inr ex_resolved"
proof -
  let ?s' = "ex_resolved\<lparr>m_thisDeviceManufacturer := ''other''\<rparr>"
  have h1: "\<not> isCalibrating (m_calibration ex_resolved)"
    and h2: "\<not> isCalibrating (m_calibration ?s')"
    and h3: "m_shadowControllerId ?s' = m_shadowControllerId ex_resolved"
    and h4: "m_poseConfiguration ?s' = m_poseConfiguration ex_resolved"
    and h5: "(\<lambda>i. ex_tracked) (unat (m_shadowControllerId ex_resolved))
               = ex_host (unat (m_shadowControllerId ex_resolved))"
    and h6: "unat (m_shadowControllerId ex_resolved) < k_unMaxTrackedDeviceCount"
    by (simp_all add: ex_resolved_def ex_defs)
  have v: "UpdatePose ex_GetRotation ex_widen ex_host ex_resolved = Inr ex_pose"
    by (simp add: UpdatePose_def GetControllerPose_def DriverPose_zero_def Let_def
          GetRotationMatrix_def MultiplyMatrix_def CombinePosition_def MultiplyQuaternion_def
          ex_resolved_def ex_pose_def ex_defs)
  from UpdatePose_deterministic [where s = ex_resolved and s' = ?s' and host = ex_host
      and host' = "\<lambda>i. ex_tracked" and G = ex_GetRotation and W = ex_widen and D = ex_derive,
      OF h1 h2 h3 h4 h5] v
  have "UpdatePose ex_GetRotation ex_widen (\<lambda>i. ex_tracked) ?s' = Inr ex_pose"
    and "run ex_GetRotation ex_widen ex_derive
           [CallUpdatePose ex_host, CallUpdatePose (\<lambda>i. ex_tracked)] ex_resolved = Inr ex_resolved"
    by simp_all
  with h1 h2 h3 h4 h5 h6 v show ?thesis by blast
qed

subsection \<open>The bounds of the pose array\<close>

text \<open>
  C9. \<open>GetControllerPose\<close> reads within the array of \<open>k_unMaxTrackedDeviceCount\<close> poses
  exactly when the index is below that count, and then returns the host's pose at the index;
  at or beyond the count the read is out of bounds. An object made with an override index at
  or beyond the count, other than the sentinel, has that index, and both \<open>UpdatePose\<close> and
  \<open>FinishCalibration\<close> pass their comparison with the sentinel and make the out-of-bounds
  read.
\<close>

theorem GetControllerPose_bounds:
  "(unat (m_shadowControllerId s) < k_unMaxTrackedDeviceCount \<longrightarrow>
      GetControllerPose host s = Inr (host (unat (m_shadowControllerId s)))) \<and>
   (k_unMaxTrackedDeviceCount \<le> unat (m_shadowControllerId s) \<longrightarrow>
      GetControllerPose host s = Inl OutOfBounds) \<and>
   (controllerOverrideEnabled cfg \<and>
    k_unMaxTrackedDeviceCount \<le> unat (controllerIdOverride cfg) \<and>
    controllerIdOverride cfg \<noteq> k_unTrackedDeviceIndexInvalid \<longrightarrow>
      m_shadowControllerId (ControllerPose role man cfg) = controllerIdOverride cfg \<and>
      UpdatePose G W host (ControllerPose role man cfg) = Inl OutOfBounds \<and>
      FinishCalibration D host (ControllerPose role man cfg) = Inl OutOfBounds)"
  by (simp add: GetControllerPose_def UpdatePose_def FinishCalibration_def ControllerPose_def
        Calibration_new_def isCalibrating_def Let_def)

text \<open>The instance of C9 at the index 3 (within bounds) and at the override index 64.\<close>

theorem GetControllerPose_bounds_witness:
  "unat (m_shadowControllerId ex_resolved) < k_unMaxTrackedDeviceCount \<and>
   GetControllerPose ex_host ex_resolved = Inr ex_tracked \<and>
   controllerOverrideEnabled ex_override \<and>
   k_unMaxTrackedDeviceCount \<le> unat (controllerIdOverride ex_override) \<and>
   controllerIdOverride ex_override \<noteq> k_unTrackedDeviceIndexInvalid \<and>
   k_unMaxTrackedDeviceCount \<le> unat (m_shadowControllerId ex_overridden) \<and>
   GetControllerPose ex_host ex_overridden = Inl OutOfBounds \<and>
   UpdatePose ex_GetRotation ex_widen ex_host ex_overridden = Inl OutOfBounds \<and>
   FinishCalibration ex_derive ex_host ex_overridden = Inl OutOfBounds"
proof -
  have h1: "unat (m_shadowControllerId ex_resolved) < k_unMaxTrackedDeviceCount"
    and i: "ex_host (unat (m_shadowControllerId ex_resolved)) = ex_tracked"
    by (simp_all add: ex_resolved_def ex_defs)
  have h2: "controllerOverrideEnabled ex_override"
    and h3: "k_unMaxTrackedDeviceCount \<le> unat (controllerIdOverride ex_override)"
    and h4: "controllerIdOverride ex_override \<noteq> k_unTrackedDeviceIndexInvalid"
    and h5: "k_unMaxTrackedDeviceCount \<le> unat (m_shadowControllerId ex_overridden)"
    by (simp_all add: ex_overridden_def ex_defs)
  from GetControllerPose_bounds [where s = ex_resolved and host = ex_host and cfg = ex_override
      and role = TrackedControllerRole_RightHand and man = "''lucidgloves''"
      and G = ex_GetRotation and W = ex_widen and D = ex_derive] h1 h2 h3 h4 i
  have a: "GetControllerPose ex_host ex_resolved = Inr ex_tracked"
    and b: "UpdatePose ex_GetRotation ex_widen ex_host ex_overridden = Inl OutOfBounds"
    and c: "FinishCalibration ex_derive ex_host ex_overridden = Inl OutOfBounds"
    by (simp_all add: ex_overridden_def)
  from GetControllerPose_bounds [where s = ex_overridden and host = ex_host and cfg = ex_override
      and role = TrackedControllerRole_RightHand and man = "''lucidgloves''"
      and G = ex_GetRotation and W = ex_widen and D = ex_derive] h5
  have d: "GetControllerPose ex_host ex_overridden = Inl OutOfBounds"
    by simp
  from h1 h2 h3 h4 h5 a b c d show ?thesis by blast
qed

subsection \<open>The frozen pose of a session\<close>

text \<open>The object that shadows device 3 on \<open>ex_host\<close>: its pose, and the session started on it.\<close>

lemma ex_UpdatePose: "UpdatePose ex_GetRotation ex_widen ex_host ex_resolved = Inr ex_pose"
  by (simp add: UpdatePose_def GetControllerPose_def DriverPose_zero_def Let_def
        GetRotationMatrix_def MultiplyMatrix_def CombinePosition_def MultiplyQuaternion_def
        ex_resolved_def ex_pose_def ex_defs)

lemma ex_StartCalibration:
  "StartCalibration ex_GetRotation ex_widen ex_host ex_resolved
     = Inr (ex_resolved\<lparr>m_calibration := Calibrating ex_pose\<rparr>)"
  by (simp add: StartCalibration_def ex_UpdatePose Calibration_StartCalibration_def)

text \<open>
  C2. A session is opened by \<open>StartCalibration\<close>, which captures the pose \<open>UpdatePose\<close>
  returns at that moment. Through every sequence of calls that leave the session open (pose
  requests on any host, reports of the discovery channel, further starts) every pose
  request returns exactly the captured pose, on every host, and would do so with any other
  index (also one beyond the host's array) and any other configuration in the object: the
  request returns before it reads any of them.
\<close>

theorem Calibrating_returns_maintain_pose:
  assumes "StartCalibration G W hostS s = Inr s1"
    and "list_all in_session cs"
  shows "\<exists>maintainPose s2.
           UpdatePose G W hostS s = Inr maintainPose \<and>
           m_calibration s1 = Calibrating maintainPose \<and>
           run G W D cs s1 = Inr s2 \<and>
           isCalibrating (m_calibration s2) \<and>
           (\<forall>host cfg i.
              UpdatePose G W host (s2\<lparr>m_poseConfiguration := cfg, m_shadowControllerId := i\<rparr>)
                = Inr maintainPose)"
proof -
  from assms(1) obtain p where p: "UpdatePose G W hostS s = Inr p"
    and c1: "m_calibration s1 = Calibrating p"
    by (auto simp: StartCalibration_def Calibration_StartCalibration_def split: sum.splits)
  from run_in_session [OF c1 assms(2)] obtain s2 where r: "run G W D cs s1 = Inr s2"
    and c2: "m_calibration s2 = Calibrating p"
    by blast
  have "UpdatePose G W host (s2\<lparr>m_poseConfiguration := cfg, m_shadowControllerId := i\<rparr>) = Inr p"
    for host cfg i
    using c2 by (simp add: UpdatePose_Calibrating)
  with p c1 r c2 show ?thesis
    by (simp add: isCalibrating_def)
qed

text \<open>
  The instance of C2 at a session started while device 3 is tracked: after the host loses
  every device and the channel reports the index 64, the request still returns the pose of
  the start.
\<close>

theorem Calibrating_returns_maintain_pose_witness:
  "StartCalibration ex_GetRotation ex_widen ex_host ex_resolved
     = Inr (ex_resolved\<lparr>m_calibration := Calibrating ex_pose\<rparr>) \<and>
   list_all in_session
     [CallUpdatePose ex_dark, CallPipeMessage \<lparr> controllerId = 64 \<rparr>, CallUpdatePose ex_dark] \<and>
   run ex_GetRotation ex_widen ex_derive
     [CallUpdatePose ex_dark, CallPipeMessage \<lparr> controllerId = 64 \<rparr>, CallUpdatePose ex_dark]
     (ex_resolved\<lparr>m_calibration := Calibrating ex_pose\<rparr>)
     = Inr (ex_resolved\<lparr>m_calibration := Calibrating ex_pose, m_shadowControllerId := 64\<rparr>) \<and>
   UpdatePose ex_GetRotation ex_widen ex_dark
     (ex_resolved\<lparr>m_calibration := Calibrating ex_pose, m_shadowControllerId := 64\<rparr>)
     = Inr ex_pose"
proof -
  let ?cs = "[CallUpdatePose ex_dark, CallPipeMessage \<lparr> controllerId = 64 \<rparr>,
              CallUpdatePose ex_dark]"
  let ?s1 = "ex_resolved\<lparr>m_calibration := Calibrating ex_pose\<rparr>"
  let ?s2 = "ex_resolved\<lparr>m_calibration := Calibrating ex_pose, m_shadowControllerId := 64\<rparr>"
  have h2: "list_all in_session ?cs" by simp
  from Calibrating_returns_maintain_pose [where G = ex_GetRotation and W = ex_widen
      and D = ex_derive and hostS = ex_host and s = ex_resolved and cs = ?cs,
      OF ex_StartCalibration h2]
  obtain p s2 where p: "UpdatePose ex_GetRotation ex_widen ex_host ex_resolved = Inr p"
    and r: "run ex_GetRotation ex_widen ex_derive ?cs ?s1 = Inr s2"
    and u: "\<And>host cfg i. UpdatePose ex_GetRotation ex_widen host
              (s2\<lparr>m_poseConfiguration := cfg, m_shadowControllerId := i\<rparr>) = Inr p"
    by blast
  from p have pe: "p = ex_pose" by (simp add: ex_UpdatePose)
  have d: "m_controllerDiscoverer ex_resolved = Some (Listening TrackedControllerRole_RightHand)"
    by (simp add: ex_resolved_def ex_defs)
  from u [where host = ex_dark and cfg = "m_poseConfiguration ex_resolved" and i = 64] r pe
  have "UpdatePose ex_GetRotation ex_widen ex_dark ?s2 = Inr ex_pose"
    by (simp add: UpdatePose_Calibrating)
  moreover have "run ex_GetRotation ex_widen ex_derive ?cs ?s1 = Inr ?s2"
    by (simp add: UpdatePose_Calibrating PipeMessage_def OnControllerPipeData_def d)
  ultimately show ?thesis
    using ex_StartCalibration h2 by blast
qed

subsection \<open>Starting a calibration without an identity\<close>

text \<open>An object made with the sentinel as its index has an identity that was never resolved.\<close>

lemma never_resolved_ControllerPose:
  "m_shadowControllerId (ControllerPose role man cfg) = k_unTrackedDeviceIndexInvalid
   \<Longrightarrow> never_resolved (ControllerPose role man cfg)"
  by (simp add: never_resolved_def ControllerPose_def Calibration_new_def split: if_splits)

text \<open>
  C10. \<open>StartCalibration\<close> freezes what \<open>UpdatePose\<close> returns. In an object whose index has
  been the sentinel since its construction (no report has carried another index), the
  index is still the sentinel, \<open>StartCalibration\<close> freezes the disconnected pose
  (\<open>deviceIsConnected\<close> false, result \<open>Uninitialized\<close>, position and orientation zero), and
  every pose request returns that pose through every sequence of calls that leave the
  session open, also after a report has resolved the identity.
\<close>

theorem StartCalibration_unresolved:
  fixes s :: "('f::{plus,times}, 'd::{zero,one,plus,minus,times}) ControllerPose_obj"
  assumes "m_shadowControllerId (ControllerPose role man cfg) = k_unTrackedDeviceIndexInvalid"
    and "list_all not_resolving cs"
    and "run G W D cs (ControllerPose role man cfg) = Inr s"
    and "list_all in_session cs'"
  shows "m_shadowControllerId s = k_unTrackedDeviceIndexInvalid \<and>
         (\<exists>s1 s2.
            StartCalibration G W host s = Inr s1 \<and>
            m_calibration s1 = Calibrating (status_pose False) \<and>
            run G W D cs' s1 = Inr s2 \<and>
            isCalibrating (m_calibration s2) \<and>
            (\<forall>host'. UpdatePose G W host' s2 = Inr (status_pose False))) \<and>
         deviceIsConnected (status_pose False :: 'd DriverPose_t) = False \<and>
         result (status_pose False :: 'd DriverPose_t) = TrackingResult_Uninitialized \<and>
         vecPosition (status_pose False :: 'd DriverPose_t) = Array3 0 0 0 \<and>
         qRotation (status_pose False :: 'd DriverPose_t) = \<lparr> qw = 0, qx = 0, qy = 0, qz = 0 \<rparr>"
proof -
  from run_never_resolved [OF never_resolved_ControllerPose [OF assms(1)] assms(2), of G W D]
    assms(3)
  have n: "never_resolved s" by simp
  then have i: "m_shadowControllerId s = k_unTrackedDeviceIndexInvalid"
    by (simp add: never_resolved_def)
  from n have "UpdatePose G W host s = Inr (status_pose False)"
    by (auto simp: never_resolved_def UpdatePose_Calibrating UpdatePose_Idle_unresolved)
  then obtain s1 where s1: "StartCalibration G W host s = Inr s1"
    and c1: "m_calibration s1 = Calibrating (status_pose False)"
    by (simp add: StartCalibration_def Calibration_StartCalibration_def)
  from run_in_session [OF c1 assms(4), of G W D] obtain s2
    where r: "run G W D cs' s1 = Inr s2" and c2: "m_calibration s2 = Calibrating (status_pose False)"
    by blast
  from c2 have "UpdatePose G W host' s2 = Inr (status_pose False)" for host'
    by (rule UpdatePose_Calibrating)
  with i s1 c1 r c2 show ?thesis
    by (auto simp: isCalibrating_def status_pose_def)
qed

text \<open>
  The instance of C10 at the new object made without override: the session started on it
  returns the disconnected pose also after the report of index 3, on a host that tracks
  device 3.
\<close>

theorem StartCalibration_unresolved_witness:
  "m_shadowControllerId ex_new = k_unTrackedDeviceIndexInvalid \<and>
   list_all not_resolving [CallUpdatePose ex_host, CallCancelCalibration] \<and>
   run ex_GetRotation ex_widen ex_derive [CallUpdatePose ex_host, CallCancelCalibration] ex_new
     = Inr ex_new \<and>
   list_all in_session [CallPipeMessage \<lparr> controllerId = 3 \<rparr>, CallUpdatePose ex_host] \<and>
   StartCalibration ex_GetRotation ex_widen ex_host ex_new
     = Inr (ex_new\<lparr>m_calibration := Calibrating (status_pose False)\<rparr>) \<and>
   run ex_GetRotation ex_widen ex_derive
     [CallPipeMessage \<lparr> controllerId = 3 \<rparr>, CallUpdatePose ex_host]
     (ex_new\<lparr>m_calibration := Calibrating (status_pose False)\<rparr>)
     = Inr (ex_resolved\<lparr>m_calibration := Calibrating (status_pose False)\<rparr>) \<and>
   UpdatePose ex_GetRotation ex_widen ex_host
     (ex_resolved\<lparr>m_calibration := Calibrating (status_pose False)\<rparr>)
     = Inr (status_pose False)"
proof -
  let ?cs = "[CallUpdatePose ex_host, CallCancelCalibration]"
  let ?cs' = "[CallPipeMessage \<lparr> controllerId = 3 \<rparr>, CallUpdatePose ex_host]"
  let ?s1 = "ex_new\<lparr>m_calibration := Calibrating (status_pose False)\<rparr>"
  let ?s2 = "ex_resolved\<lparr>m_calibration := Calibrating (status_pose False)\<rparr>"
  have h1: "m_shadowControllerId (ControllerPose TrackedControllerRole_RightHand ''lucidgloves''
              ex_configuration) = k_unTrackedDeviceIndexInvalid"
    by (simp add: ex_defs)
  have h2: "list_all not_resolving ?cs" by simp
  have u: "UpdatePose ex_GetRotation ex_widen ex_host ex_new = Inr (status_pose False)"
    by (rule UpdatePose_Idle_unresolved) (simp_all add: ex_new_def ex_defs)
  have h3: "run ex_GetRotation ex_widen ex_derive ?cs
              (ControllerPose TrackedControllerRole_RightHand ''lucidgloves'' ex_configuration)
            = Inr ex_new"
    using u by (simp add: ex_new_def CancelCalibration_def Calibration_CancelCalibration_def
                  ControllerPose_def Calibration_new_def)
  have h4: "list_all in_session ?cs'" by simp
  from StartCalibration_unresolved [where G = ex_GetRotation and W = ex_widen and D = ex_derive
      and cs = ?cs and cs' = ?cs' and host = ex_host, OF h1 h2 h3 h4]
  obtain s1 s2 where a: "StartCalibration ex_GetRotation ex_widen ex_host ex_new = Inr s1"
    and b: "run ex_GetRotation ex_widen ex_derive ?cs' s1 = Inr s2"
    and c: "\<And>host'. UpdatePose ex_GetRotation ex_widen host' s2 = Inr (status_pose False)"
    by blast
  have a': "StartCalibration ex_GetRotation ex_widen ex_host ex_new = Inr ?s1"
    by (simp add: StartCalibration_def u Calibration_StartCalibration_def)
  have b': "run ex_GetRotation ex_widen ex_derive ?cs' ?s1 = Inr ?s2"
    by (simp add: UpdatePose_Calibrating ex_new_def ex_resolved_def PipeMessage_def
          OnControllerPipeData_def ControllerPose_def)
  from a a' b b' have "s2 = ?s2" by simp
  with c [of ex_host] have "UpdatePose ex_GetRotation ex_widen ex_host ?s2 = Inr (status_pose False)"
    by simp
  with h1 h2 h3 h4 a' b' show ?thesis
    by (simp add: ex_new_def)
qed

subsection \<open>Finishing a calibration with an identity\<close>

text \<open>The role of an object is the one it was made with.\<close>

lemma ControllerPose_role: "m_shadowDeviceOfRole (ControllerPose role man cfg) = role"
  by (simp add: ControllerPose_def)

text \<open>
  C5. In an object reached from its construction for the role \<open>role\<close> whose index is not the
  sentinel and is within the host's array, \<open>FinishCalibration\<close> replaces the configuration,
  in one assignment of the whole value, by the derivation \<open>D\<close> applied to the pose the host
  gives for the index at this call, the configuration before the call, and the flag that is
  true exactly when \<open>role\<close> is the right hand; the session is closed and no other member
  changes.
\<close>

theorem FinishCalibration_resolved:
  assumes "run G W D cs (ControllerPose role man cfg) = Inr s"
    and "m_shadowControllerId s \<noteq> k_unTrackedDeviceIndexInvalid"
    and "unat (m_shadowControllerId s) < k_unMaxTrackedDeviceCount"
  shows "isRightHand s = (role = TrackedControllerRole_RightHand) \<and>
         FinishCalibration D host s = Inr
           (s\<lparr> m_calibration := Idle,
               m_poseConfiguration :=
                 D (host (unat (m_shadowControllerId s))) (m_poseConfiguration s)
                   (role = TrackedControllerRole_RightHand) \<rparr>)"
proof -
  from run_members [OF assms(1)] have "m_shadowDeviceOfRole s = role"
    by (simp add: ControllerPose_role)
  then have r: "isRightHand s = (role = TrackedControllerRole_RightHand)"
    by (simp add: isRightHand_def)
  from assms(2,3) r show ?thesis
    by (simp add: FinishCalibration_def GetControllerPose_def Calibration_FinishCalibration_def)
qed

text \<open>
  The instance of C5 at the right-hand object after the report of index 3 and a start of
  calibration: the derivation of the example copies the controller's linear velocity for
  the right hand.
\<close>

lemma ex_run_start:
  "run ex_GetRotation ex_widen ex_derive
     [CallPipeMessage \<lparr> controllerId = 3 \<rparr>, CallStartCalibration ex_host]
     (ControllerPose TrackedControllerRole_RightHand ''lucidgloves'' ex_configuration)
   = Inr (ex_resolved\<lparr>m_calibration := Calibrating ex_pose\<rparr>)"
  using ex_StartCalibration by (simp add: ex_resolved_def)

theorem FinishCalibration_resolved_witness:
  "run ex_GetRotation ex_widen ex_derive
     [CallPipeMessage \<lparr> controllerId = 3 \<rparr>, CallStartCalibration ex_host]
     (ControllerPose TrackedControllerRole_RightHand ''lucidgloves'' ex_configuration)
     = Inr (ex_resolved\<lparr>m_calibration := Calibrating ex_pose\<rparr>) \<and>
   m_shadowControllerId (ex_resolved\<lparr>m_calibration := Calibrating ex_pose\<rparr>)
     \<noteq> k_unTrackedDeviceIndexInvalid \<and>
   unat (m_shadowControllerId (ex_resolved\<lparr>m_calibration := Calibrating ex_pose\<rparr>))
     < k_unMaxTrackedDeviceCount \<and>
   FinishCalibration ex_derive ex_host (ex_resolved\<lparr>m_calibration := Calibrating ex_pose\<rparr>)
     = Inr (ex_resolved\<lparr>m_poseConfiguration := ex_configuration\<lparr>offsetVector := Array3 4 5 6\<rparr>\<rparr>)"
proof -
  let ?s = "ex_resolved\<lparr>m_calibration := Calibrating ex_pose\<rparr>"
  have h2: "m_shadowControllerId ?s \<noteq> k_unTrackedDeviceIndexInvalid"
    and h3: "unat (m_shadowControllerId ?s) < k_unMaxTrackedDeviceCount"
    by (simp_all add: ex_resolved_def ex_defs)
  from FinishCalibration_resolved [where G = ex_GetRotation and W = ex_widen and D = ex_derive
      and host = ex_host, OF ex_run_start h2 h3]
  have "FinishCalibration ex_derive ex_host ?s
          = Inr (ex_resolved\<lparr>m_poseConfiguration := ex_configuration\<lparr>offsetVector := Array3 4 5 6\<rparr>\<rparr>)"
    by (simp add: ex_resolved_def ex_defs)
  with ex_run_start h2 h3 show ?thesis by blast
qed

subsection \<open>Resolving the identity\<close>

text \<open>
  C3. An object made with the override enabled has the override index at once and no
  discovery pipe, and its index is the override index after every sequence of calls; an
  object made without it has the sentinel as index and a pipe listening for its role, every
  report overwrites the index with the reported one, whatever came before, and after a
  report of index 3, for as long as no further report arrives, \<open>GetControllerPose\<close> returns
  the host's pose of device 3 and a pose request outside calibration returns the pose
  computed from that pose: if the host's pose of device 3 is valid, the position is its
  translation plus the configured offset multiplied by its rotation part, the orientation
  is the Hamilton product of its rotation and the configured offset quaternion, the
  velocities are its velocities and the status is connected, valid and \<open>Running_OK\<close>; if it
  is not valid, the status is connected, not valid and \<open>Uninitialized\<close>. No other pose of
  the host enters the result.
\<close>

theorem construction_resolves_identity:
  "(controllerOverrideEnabled cfg \<longrightarrow>
      m_shadowControllerId (ControllerPose role man cfg) = controllerIdOverride cfg \<and>
      m_controllerDiscoverer (ControllerPose role man cfg) = None \<and>
      (\<forall>cs s'. run G W D cs (ControllerPose role man cfg) = Inr s' \<longrightarrow>
         m_shadowControllerId s' = controllerIdOverride cfg)) \<and>
   (\<not> controllerOverrideEnabled cfg \<longrightarrow>
      m_shadowControllerId (ControllerPose role man cfg) = k_unTrackedDeviceIndexInvalid \<and>
      m_controllerDiscoverer (ControllerPose role man cfg) = Some (Listening role) \<and>
      (\<forall>cs s' data. run G W D cs (ControllerPose role man cfg) = Inr s' \<longrightarrow>
         m_shadowControllerId (PipeMessage data s') = controllerId data \<and>
         (\<forall>cs' s'' host.
            controllerId data = 3 \<and> list_all no_report cs' \<and>
            run G W D cs' (PipeMessage data s') = Inr s'' \<longrightarrow>
              m_shadowControllerId s'' = 3 \<and>
              GetControllerPose host s'' = Inr (host 3) \<and>
              (\<not> isCalibrating (m_calibration s'') \<longrightarrow>
                 UpdatePose G W host s'' = UpdatePose G W (\<lambda>i. host 3) s'' \<and>
                 UpdatePose G W host s'' =
                   (let controllerPose = host 3;
                      M = mDeviceToAbsoluteTracking controllerPose;
                      off = offsetVector (m_poseConfiguration s'');
                      q = G M;
                      r = angleOffsetQuaternion (m_poseConfiguration s'')
                  in if bPoseIsValid controllerPose then
                       Inr \<lparr> poseTimeOffset = W (poseOffset (m_poseConfiguration s'')),
                             qWorldFromDriverRotation = \<lparr> qw = 1, qx = 0, qy = 0, qz = 0 \<rparr>,
                             vecWorldFromDriverTranslation = Array3 0 0 0,
                             qDriverFromHeadRotation = \<lparr> qw = 1, qx = 0, qy = 0, qz = 0 \<rparr>,
                             vecDriverFromHeadTranslation = Array3 0 0 0,
                             vecPosition = Array3
                               (W (col3 (at0 M) + (col0 (at0 M) * at0 off
                                     + col1 (at0 M) * at1 off + col2 (at0 M) * at2 off)))
                               (W (col3 (at1 M) + (col0 (at1 M) * at0 off
                                     + col1 (at1 M) * at1 off + col2 (at1 M) * at2 off)))
                               (W (col3 (at2 M) + (col0 (at2 M) * at0 off
                                     + col1 (at2 M) * at1 off + col2 (at2 M) * at2 off))),
                             vecVelocity = Array3 (W (at0 (vVelocity controllerPose)))
                                                  (W (at1 (vVelocity controllerPose)))
                                                  (W (at2 (vVelocity controllerPose))),
                             vecAcceleration = Array3 0 0 0,
                             qRotation =
                               \<lparr> qw = qw q * qw r - qx q * qx r - qy q * qy r - qz q * qz r,
                                 qx = qw q * qx r + qx q * qw r + qy q * qz r - qz q * qy r,
                                 qy = qw q * qy r - qx q * qz r + qy q * qw r + qz q * qx r,
                                 qz = qw q * qz r + qx q * qy r - qy q * qx r + qz q * qw r \<rparr>,
                             vecAngularVelocity =
                               Array3 (W (at0 (vAngularVelocity controllerPose)))
                                      (W (at1 (vAngularVelocity controllerPose)))
                                      (W (at2 (vAngularVelocity controllerPose))),
                             vecAngularAcceleration = Array3 0 0 0,
                             result = TrackingResult_Running_OK,
                             poseIsValid = True,
                             willDriftInYaw = False,
                             shouldApplyHeadModel = False,
                             deviceIsConnected = True \<rparr>
                     else
                       Inr \<lparr> poseTimeOffset = 0,
                             qWorldFromDriverRotation = \<lparr> qw = 1, qx = 0, qy = 0, qz = 0 \<rparr>,
                             vecWorldFromDriverTranslation = Array3 0 0 0,
                             qDriverFromHeadRotation = \<lparr> qw = 1, qx = 0, qy = 0, qz = 0 \<rparr>,
                             vecDriverFromHeadTranslation = Array3 0 0 0,
                             vecPosition = Array3 0 0 0,
                             vecVelocity = Array3 0 0 0,
                             vecAcceleration = Array3 0 0 0,
                             qRotation = \<lparr> qw = 0, qx = 0, qy = 0, qz = 0 \<rparr>,
                             vecAngularVelocity = Array3 0 0 0,
                             vecAngularAcceleration = Array3 0 0 0,
                             result = TrackingResult_Uninitialized,
                             poseIsValid = False,
                             willDriftInYaw = False,
                             shouldApplyHeadModel = False,
                             deviceIsConnected = True \<rparr>)))))"
proof (intro conjI impI allI)
  assume o: "controllerOverrideEnabled cfg"
  show "m_shadowControllerId (ControllerPose role man cfg) = controllerIdOverride cfg"
    and n: "m_controllerDiscoverer (ControllerPose role man cfg) = None"
    using o by (simp_all add: ControllerPose_def)
  fix cs s'
  assume "run G W D cs (ControllerPose role man cfg) = Inr s'"
  from run_members [OF this] n o
  show "m_shadowControllerId s' = controllerIdOverride cfg"
    by (simp add: ControllerPose_def)
next
  assume o: "\<not> controllerOverrideEnabled cfg"
  show "m_shadowControllerId (ControllerPose role man cfg) = k_unTrackedDeviceIndexInvalid"
    and d: "m_controllerDiscoverer (ControllerPose role man cfg) = Some (Listening role)"
    using o by (simp_all add: ControllerPose_def m_shadowControllerId_default_def)
  fix cs s' data
  assume r: "run G W D cs (ControllerPose role man cfg) = Inr s'"
  from run_members [OF r] d have d': "m_controllerDiscoverer s' = Some (Listening role)"
    by simp
  then show w: "m_shadowControllerId (PipeMessage data s') = controllerId data"
    by (simp add: PipeMessage_def OnControllerPipeData_def)
  fix cs' s'' host
  assume a: "controllerId data = 3 \<and> list_all no_report cs' \<and>
             run G W D cs' (PipeMessage data s') = Inr s''"
  then have "run G W D cs' (PipeMessage data s') = Inr s''" and "list_all no_report cs'"
    by simp_all
  from run_members [OF this(1)] this(2) w a
  show i: "m_shadowControllerId s'' = 3"
    by simp
  then show g: "GetControllerPose host s'' = Inr (host 3)"
    by (simp add: GetControllerPose_def k_unMaxTrackedDeviceCount_def)
  assume c: "\<not> isCalibrating (m_calibration s'')"
  with i show "UpdatePose G W host s'' = UpdatePose G W (\<lambda>i. host 3) s''"
    by (simp add: UpdatePose_def GetControllerPose_def k_unMaxTrackedDeviceCount_def Let_def)
  from i have v: "m_shadowControllerId s'' \<noteq> k_unTrackedDeviceIndexInvalid"
    by (simp add: k_unTrackedDeviceIndexInvalid_def)
  from c v g show "UpdatePose G W host s'' =
                   (let controllerPose = host 3;
                      M = mDeviceToAbsoluteTracking controllerPose;
                      off = offsetVector (m_poseConfiguration s'');
                      q = G M;
                      r = angleOffsetQuaternion (m_poseConfiguration s'')
                  in if bPoseIsValid controllerPose then
                       Inr \<lparr> poseTimeOffset = W (poseOffset (m_poseConfiguration s'')),
                             qWorldFromDriverRotation = \<lparr> qw = 1, qx = 0, qy = 0, qz = 0 \<rparr>,
                             vecWorldFromDriverTranslation = Array3 0 0 0,
                             qDriverFromHeadRotation = \<lparr> qw = 1, qx = 0, qy = 0, qz = 0 \<rparr>,
                             vecDriverFromHeadTranslation = Array3 0 0 0,
                             vecPosition = Array3
                               (W (col3 (at0 M) + (col0 (at0 M) * at0 off
                                     + col1 (at0 M) * at1 off + col2 (at0 M) * at2 off)))
                               (W (col3 (at1 M) + (col0 (at1 M) * at0 off
                                     + col1 (at1 M) * at1 off + col2 (at1 M) * at2 off)))
                               (W (col3 (at2 M) + (col0 (at2 M) * at0 off
                                     + col1 (at2 M) * at1 off + col2 (at2 M) * at2 off))),
                             vecVelocity = Array3 (W (at0 (vVelocity controllerPose)))
                                                  (W (at1 (vVelocity controllerPose)))
                                                  (W (at2 (vVelocity controllerPose))),
                             vecAcceleration = Array3 0 0 0,
                             qRotation =
                               \<lparr> qw = qw q * qw r - qx q * qx r - qy q * qy r - qz q * qz r,
                                 qx = qw q * qx r + qx q * qw r + qy q * qz r - qz q * qy r,
                                 qy = qw q * qy r - qx q * qz r + qy q * qw r + qz q * qx r,
                                 qz = qw q * qz r + qx q * qy r - qy q * qx r + qz q * qw r \<rparr>,
                             vecAngularVelocity =
                               Array3 (W (at0 (vAngularVelocity controllerPose)))
                                      (W (at1 (vAngularVelocity controllerPose)))
                                      (W (at2 (vAngularVelocity controllerPose))),
                             vecAngularAcceleration = Array3 0 0 0,
                             result = TrackingResult_Running_OK,
                             poseIsValid = True,
                             willDriftInYaw = False,
                             shouldApplyHeadModel = False,
                             deviceIsConnected = True \<rparr>
                     else
                       Inr \<lparr> poseTimeOffset = 0,
                             qWorldFromDriverRotation = \<lparr> qw = 1, qx = 0, qy = 0, qz = 0 \<rparr>,
                             vecWorldFromDriverTranslation = Array3 0 0 0,
                             qDriverFromHeadRotation = \<lparr> qw = 1, qx = 0, qy = 0, qz = 0 \<rparr>,
                             vecDriverFromHeadTranslation = Array3 0 0 0,
                             vecPosition = Array3 0 0 0,
                             vecVelocity = Array3 0 0 0,
                             vecAcceleration = Array3 0 0 0,
                             qRotation = \<lparr> qw = 0, qx = 0, qy = 0, qz = 0 \<rparr>,
                             vecAngularVelocity = Array3 0 0 0,
                             vecAngularAcceleration = Array3 0 0 0,
                             result = TrackingResult_Uninitialized,
                             poseIsValid = False,
                             willDriftInYaw = False,
                             shouldApplyHeadModel = False,
                             deviceIsConnected = True \<rparr>)"
    by (simp add: UpdatePose_def DriverPose_zero_def Let_def GetRotationMatrix_def
          MultiplyMatrix_def CombinePosition_def MultiplyQuaternion_def)
qed

text \<open>
  The instance of C3 at the override index 5, through a report, a pose request and a whole
  calibration, and at the object without override, on which the report of index 3 follows
  one of index 7: on the host that tracks device 3 the request returns the pose at
  (1.05, 2, 3), on the host that tracks nothing the connected, untracked pose.
\<close>

lemma ex_run_override:
  "run ex_GetRotation ex_widen ex_derive
     [CallPipeMessage \<lparr> controllerId = 3 \<rparr>, CallUpdatePose ex_host,
      CallStartCalibration ex_host, CallFinishCalibration ex_host]
     (ControllerPose TrackedControllerRole_RightHand ''lucidgloves'' ex_override5)
   = Inr (ex_overridden5\<lparr>m_poseConfiguration := ex_override5\<lparr>offsetVector := Array3 4 5 6\<rparr>\<rparr>)"
  by (simp add: ex_overridden5_def ex_override5_def UpdatePose_def StartCalibration_def
        FinishCalibration_def GetControllerPose_def GetMaintainPose_def
        Calibration_StartCalibration_def Calibration_FinishCalibration_def isRightHand_def
        Let_def ex_defs)

lemma ex_run_report:
  "run ex_GetRotation ex_widen ex_derive [CallPipeMessage \<lparr> controllerId = 7 \<rparr>]
     (ControllerPose TrackedControllerRole_RightHand ''lucidgloves'' ex_configuration)
   = Inr (PipeMessage \<lparr> controllerId = 7 \<rparr> ex_new)"
  by (simp add: ex_new_def)

lemma ex_report_again:
  "PipeMessage \<lparr> controllerId = 3 \<rparr> (PipeMessage \<lparr> controllerId = 7 \<rparr> ex_new) = ex_resolved"
  by (simp add: ex_new_def ex_resolved_def PipeMessage_def OnControllerPipeData_def
        ControllerPose_def ex_configuration_def)

lemma ex_run_request:
  "run ex_GetRotation ex_widen ex_derive [CallUpdatePose ex_host] ex_resolved = Inr ex_resolved"
  by (simp add: ex_UpdatePose)

theorem construction_resolves_identity_witness:
  "controllerOverrideEnabled ex_override5 \<and>
   m_shadowControllerId ex_overridden5 = 5 \<and>
   m_controllerDiscoverer ex_overridden5 = None \<and>
   run ex_GetRotation ex_widen ex_derive
     [CallPipeMessage \<lparr> controllerId = 3 \<rparr>, CallUpdatePose ex_host,
      CallStartCalibration ex_host, CallFinishCalibration ex_host] ex_overridden5
     = Inr (ex_overridden5\<lparr>m_poseConfiguration := ex_override5\<lparr>offsetVector := Array3 4 5 6\<rparr>\<rparr>) \<and>
   m_shadowControllerId
     (ex_overridden5\<lparr>m_poseConfiguration := ex_override5\<lparr>offsetVector := Array3 4 5 6\<rparr>\<rparr>) = 5 \<and>
   \<not> controllerOverrideEnabled ex_configuration \<and>
   m_shadowControllerId ex_new = k_unTrackedDeviceIndexInvalid \<and>
   m_controllerDiscoverer ex_new = Some (Listening TrackedControllerRole_RightHand) \<and>
   run ex_GetRotation ex_widen ex_derive [CallPipeMessage \<lparr> controllerId = 7 \<rparr>] ex_new
     = Inr (PipeMessage \<lparr> controllerId = 7 \<rparr> ex_new) \<and>
   m_shadowControllerId (PipeMessage \<lparr> controllerId = 7 \<rparr> ex_new) = 7 \<and>
   PipeMessage \<lparr> controllerId = 3 \<rparr> (PipeMessage \<lparr> controllerId = 7 \<rparr> ex_new) = ex_resolved \<and>
   list_all no_report [CallUpdatePose ex_host] \<and>
   run ex_GetRotation ex_widen ex_derive [CallUpdatePose ex_host] ex_resolved = Inr ex_resolved \<and>
   m_shadowControllerId ex_resolved = 3 \<and>
   GetControllerPose ex_host ex_resolved = Inr (ex_host 3) \<and>
   \<not> isCalibrating (m_calibration ex_resolved) \<and>
   UpdatePose ex_GetRotation ex_widen ex_host ex_resolved
     = UpdatePose ex_GetRotation ex_widen (\<lambda>i. ex_host 3) ex_resolved \<and>
   bPoseIsValid (ex_host 3) \<and>
   UpdatePose ex_GetRotation ex_widen ex_host ex_resolved = Inr ex_pose \<and>
   \<not> bPoseIsValid (ex_dark 3) \<and>
   UpdatePose ex_GetRotation ex_widen ex_dark ex_resolved = Inr (status_pose True)"
proof -
  let ?new = "ControllerPose TrackedControllerRole_RightHand ''lucidgloves'' ex_configuration"
  let ?t = "ex_overridden5\<lparr>m_poseConfiguration := ex_override5\<lparr>offsetVector := Array3 4 5 6\<rparr>\<rparr>"
  let ?seven = "PipeMessage \<lparr> controllerId = 7 \<rparr> ex_new"
  have o: "controllerOverrideEnabled ex_override5"
    and v: "controllerIdOverride ex_override5 = 5"
    and n: "\<not> controllerOverrideEnabled ex_configuration"
    by (simp_all add: ex_override5_def ex_configuration_def)
  from construction_resolves_identity [where cfg = ex_override5
      and role = TrackedControllerRole_RightHand and man = "''lucidgloves''"
      and G = ex_GetRotation and W = ex_widen and D = ex_derive] o
  have over: "m_shadowControllerId ex_overridden5 = controllerIdOverride ex_override5 \<and>
      m_controllerDiscoverer ex_overridden5 = None \<and>
      (\<forall>cs s'. run ex_GetRotation ex_widen ex_derive cs ex_overridden5 = Inr s' \<longrightarrow>
         m_shadowControllerId s' = controllerIdOverride ex_override5)"
    unfolding ex_overridden5_def by (rule mp [OF conjunct1])
  have r5: "run ex_GetRotation ex_widen ex_derive
     [CallPipeMessage \<lparr> controllerId = 3 \<rparr>, CallUpdatePose ex_host,
      CallStartCalibration ex_host, CallFinishCalibration ex_host] ex_overridden5 = Inr ?t"
    using ex_run_override by (simp add: ex_overridden5_def)
  from over v have a1: "m_shadowControllerId ex_overridden5 = 5"
    and a2: "m_controllerDiscoverer ex_overridden5 = None"
    by simp_all
  from over [THEN conjunct2, THEN conjunct2, rule_format, OF r5] v
  have a3: "m_shadowControllerId ?t = 5"
    by simp
  from construction_resolves_identity [where cfg = ex_configuration
      and role = TrackedControllerRole_RightHand and man = "''lucidgloves''"
      and G = ex_GetRotation and W = ex_widen and D = ex_derive] n
  have plain: "m_shadowControllerId ex_new = k_unTrackedDeviceIndexInvalid \<and>
      m_controllerDiscoverer ex_new = Some (Listening TrackedControllerRole_RightHand) \<and>
      (\<forall>cs s' data. run ex_GetRotation ex_widen ex_derive cs ex_new = Inr s' \<longrightarrow>
         m_shadowControllerId (PipeMessage data s') = controllerId data \<and>
         (\<forall>cs' s'' host.
            controllerId data = 3 \<and> list_all no_report cs' \<and>
            run ex_GetRotation ex_widen ex_derive cs' (PipeMessage data s') = Inr s'' \<longrightarrow>
              m_shadowControllerId s'' = 3 \<and>
              GetControllerPose host s'' = Inr (host 3) \<and>
              (\<not> isCalibrating (m_calibration s'') \<longrightarrow>
                 UpdatePose ex_GetRotation ex_widen host s''
                   = UpdatePose ex_GetRotation ex_widen (\<lambda>i. host 3) s'' \<and>
                 UpdatePose ex_GetRotation ex_widen host s'' =
                   (let controllerPose = host 3;
                      M = mDeviceToAbsoluteTracking controllerPose;
                      off = offsetVector (m_poseConfiguration s'');
                      q = ex_GetRotation M;
                      r = angleOffsetQuaternion (m_poseConfiguration s'')
                  in if bPoseIsValid controllerPose then
                       Inr \<lparr> poseTimeOffset = ex_widen (poseOffset (m_poseConfiguration s'')),
                             qWorldFromDriverRotation = \<lparr> qw = 1, qx = 0, qy = 0, qz = 0 \<rparr>,
                             vecWorldFromDriverTranslation = Array3 0 0 0,
                             qDriverFromHeadRotation = \<lparr> qw = 1, qx = 0, qy = 0, qz = 0 \<rparr>,
                             vecDriverFromHeadTranslation = Array3 0 0 0,
                             vecPosition = Array3
                               (ex_widen (col3 (at0 M) + (col0 (at0 M) * at0 off
                                     + col1 (at0 M) * at1 off + col2 (at0 M) * at2 off)))
                               (ex_widen (col3 (at1 M) + (col0 (at1 M) * at0 off
                                     + col1 (at1 M) * at1 off + col2 (at1 M) * at2 off)))
                               (ex_widen (col3 (at2 M) + (col0 (at2 M) * at0 off
                                     + col1 (at2 M) * at1 off + col2 (at2 M) * at2 off))),
                             vecVelocity = Array3 (ex_widen (at0 (vVelocity controllerPose)))
                                                  (ex_widen (at1 (vVelocity controllerPose)))
                                                  (ex_widen (at2 (vVelocity controllerPose))),
                             vecAcceleration = Array3 0 0 0,
                             qRotation =
                               \<lparr> qw = qw q * qw r - qx q * qx r - qy q * qy r - qz q * qz r,
                                 qx = qw q * qx r + qx q * qw r + qy q * qz r - qz q * qy r,
                                 qy = qw q * qy r - qx q * qz r + qy q * qw r + qz q * qx r,
                                 qz = qw q * qz r + qx q * qy r - qy q * qx r + qz q * qw r \<rparr>,
                             vecAngularVelocity =
                               Array3 (ex_widen (at0 (vAngularVelocity controllerPose)))
                                      (ex_widen (at1 (vAngularVelocity controllerPose)))
                                      (ex_widen (at2 (vAngularVelocity controllerPose))),
                             vecAngularAcceleration = Array3 0 0 0,
                             result = TrackingResult_Running_OK,
                             poseIsValid = True,
                             willDriftInYaw = False,
                             shouldApplyHeadModel = False,
                             deviceIsConnected = True \<rparr>
                     else
                       Inr \<lparr> poseTimeOffset = 0,
                             qWorldFromDriverRotation = \<lparr> qw = 1, qx = 0, qy = 0, qz = 0 \<rparr>,
                             vecWorldFromDriverTranslation = Array3 0 0 0,
                             qDriverFromHeadRotation = \<lparr> qw = 1, qx = 0, qy = 0, qz = 0 \<rparr>,
                             vecDriverFromHeadTranslation = Array3 0 0 0,
                             vecPosition = Array3 0 0 0,
                             vecVelocity = Array3 0 0 0,
                             vecAcceleration = Array3 0 0 0,
                             qRotation = \<lparr> qw = 0, qx = 0, qy = 0, qz = 0 \<rparr>,
                             vecAngularVelocity = Array3 0 0 0,
                             vecAngularAcceleration = Array3 0 0 0,
                             result = TrackingResult_Uninitialized,
                             poseIsValid = False,
                             willDriftInYaw = False,
                             shouldApplyHeadModel = False,
                             deviceIsConnected = True \<rparr>))))"
    unfolding ex_new_def by (rule mp [OF conjunct2])
  from plain have b1: "m_shadowControllerId ex_new = k_unTrackedDeviceIndexInvalid"
    and b2: "m_controllerDiscoverer ex_new = Some (Listening TrackedControllerRole_RightHand)"
    by simp_all
  have r7: "run ex_GetRotation ex_widen ex_derive
      [CallPipeMessage \<lparr> controllerId = 7 \<rparr>] ex_new = Inr ?seven"
    by simp
  have r0: "run ex_GetRotation ex_widen ex_derive [] ex_new = Inr ex_new"
    by simp
  from plain [THEN conjunct2, THEN conjunct2, rule_format, OF r0,
      where data = "\<lparr> controllerId = 7 \<rparr>"]
  have b3: "m_shadowControllerId ?seven = 7"
    by simp
  have l: "list_all no_report [CallUpdatePose ex_host]"
    by simp
  have q: "controllerId \<lparr> controllerId = 3 \<rparr> = 3 \<and>
           list_all no_report [CallUpdatePose ex_host] \<and>
           run ex_GetRotation ex_widen ex_derive [CallUpdatePose ex_host]
             (PipeMessage \<lparr> controllerId = 3 \<rparr> ?seven) = Inr ex_resolved"
    by (simp add: ex_report_again ex_UpdatePose)
  have c: "\<not> isCalibrating (m_calibration ex_resolved)"
    by (simp add: ex_resolved_def ex_defs)
  note after = plain [THEN conjunct2, THEN conjunct2, rule_format, OF r7,
      where data = "\<lparr> controllerId = 3 \<rparr>", THEN conjunct2, rule_format, OF q]
  from after [where host = ex_host] have b4: "m_shadowControllerId ex_resolved = 3"
    and b5: "GetControllerPose ex_host ex_resolved = Inr (ex_host 3)"
    by simp_all
  note read = after [THEN conjunct2, THEN conjunct2, rule_format, OF c]
  from read [where host = ex_host]
  have b6: "UpdatePose ex_GetRotation ex_widen ex_host ex_resolved
              = UpdatePose ex_GetRotation ex_widen (\<lambda>i. ex_host 3) ex_resolved"
    by (rule conjunct1)
  have k: "m_poseConfiguration ex_resolved = ex_configuration"
    by (simp add: ex_resolved_def ex_defs)
  have t: "bPoseIsValid (ex_host 3)" and u: "\<not> bPoseIsValid (ex_dark 3)"
    by (simp_all add: ex_host_def ex_dark_def ex_tracked_def)
  have b7: "UpdatePose ex_GetRotation ex_widen ex_host ex_resolved = Inr ex_pose"
    unfolding read [where host = ex_host, THEN conjunct2]
    by (simp add: Let_def k ex_host_def ex_tracked_def ex_GetRotation_def ex_widen_def
          ex_configuration_def ex_pose_def)
  have b8: "UpdatePose ex_GetRotation ex_widen ex_dark ex_resolved = Inr (status_pose True)"
    unfolding read [where host = ex_dark, THEN conjunct2]
    by (simp add: Let_def ex_dark_def ex_tracked_def status_pose_def)
  from o a1 a2 r5 a3 n b1 b2 r7 b3 ex_report_again l ex_run_request b4 b5 c b6 t b7 u b8
  show ?thesis by (intro conjI)
qed

end
